theory Spec2Isabelle
  imports Complex_Main "HOL-Library.Sublist"
begin

section \<open>Billing status (src/billing/types/billing-status.ts)\<close>

datatype BillingStatus = TRIAL | ACTIVE | PENDING_PAYMENT | OVERDUE | SUSPENDED | CANCELED

text \<open>The string value of each enum member, as it appears in error messages.\<close>

fun statusValue :: "BillingStatus \<Rightarrow> string" where
  "statusValue TRIAL = ''trial''"
| "statusValue ACTIVE = ''active''"
| "statusValue PENDING_PAYMENT = ''pending_payment''"
| "statusValue OVERDUE = ''overdue''"
| "statusValue SUSPENDED = ''suspended''"
| "statusValue CANCELED = ''canceled''"

fun billingStatusTransitions :: "BillingStatus \<Rightarrow> BillingStatus list" where
  "billingStatusTransitions TRIAL = [ACTIVE, PENDING_PAYMENT, CANCELED]"
| "billingStatusTransitions PENDING_PAYMENT = [ACTIVE, OVERDUE, CANCELED]"
| "billingStatusTransitions ACTIVE = [OVERDUE, CANCELED]"
| "billingStatusTransitions OVERDUE = [ACTIVE, SUSPENDED, CANCELED]"
| "billingStatusTransitions SUSPENDED = [ACTIVE, CANCELED]"
| "billingStatusTransitions CANCELED = []"

text \<open>\<^verbatim>\<open>allowedTransitions?.includes(to) ?? false\<close>: the table has a row for every
  member of the enum, so the fallback is never taken.\<close>

definition isValidTransition :: "BillingStatus \<Rightarrow> BillingStatus \<Rightarrow> bool" where
  "isValidTransition from to = (to \<in> set (billingStatusTransitions from))"

definition hasFullAccess :: "BillingStatus \<Rightarrow> bool" where
  "hasFullAccess status = (status = ACTIVE \<or> status = TRIAL)"

definition hasLimitedAccess :: "BillingStatus \<Rightarrow> bool" where
  "hasLimitedAccess status = (status = OVERDUE \<or> status = PENDING_PAYMENT)"

definition hasAnyAccess :: "BillingStatus \<Rightarrow> bool" where
  "hasAnyAccess status = (hasFullAccess status \<or> hasLimitedAccess status)"


section \<open>Tenant billing data (billing-plan.ts, subscription-service.ts)\<close>

datatype BillingCycle = WEEKLY | BIWEEKLY | MONTHLY | QUARTERLY | SEMIANNUALLY | YEARLY

text \<open>Dates are kept as their time value (milliseconds since the epoch); an optional
  field is an \<open>option\<close>.\<close>

record SubscriptionMetadata =
  planId :: string
  planName :: string
  priceInCents :: int
  currency :: string
  cycle :: BillingCycle
  trialEndDate :: "int option"
  nextBillingDate :: "int option"
  lastPaymentDate :: "int option"
  daysOverdue :: "int option"
  custom :: "(string \<times> string) list"

record TenantBillingData =
  tenant_id :: string
  asaasCustomerId :: "string option"
  asaasSubscriptionId :: "string option"
  billingStatus :: BillingStatus
  subscriptionMetadata :: "SubscriptionMetadata option"

text \<open>\<^verbatim>\<open>Partial<TenantBillingData>\<close>: the fields an update call carries.\<close>

record TenantBillingPatch =
  patchCustomerId :: "string option"
  patchSubscriptionId :: "string option"
  patchBillingStatus :: "BillingStatus option"
  patchSubscriptionMetadata :: "SubscriptionMetadata option"

definition emptyPatch :: TenantBillingPatch where
  "emptyPatch = \<lparr>patchCustomerId = None, patchSubscriptionId = None,
                  patchBillingStatus = None, patchSubscriptionMetadata = None\<rparr>"

text \<open>The tenant billing store adapter. The repository only declares the two callbacks
  \<^verbatim>\<open>getTenantBilling\<close> and \<^verbatim>\<open>updateTenantBilling\<close>; they are modelled as a
  key-value store per tenant with read-after-write consistency. A read returns a copy of
  the record (as a database row does), an update merges the fields it carries into the
  tenant's record and touches no other tenant, and an update of an unknown tenant changes
  nothing.\<close>

type_synonym TenantStore = "string \<rightharpoonup> TenantBillingData"

definition getTenantBilling :: "TenantStore \<Rightarrow> string \<Rightarrow> TenantBillingData option" where
  "getTenantBilling st tenantId = st tenantId"

definition applyPatch :: "TenantBillingData \<Rightarrow> TenantBillingPatch \<Rightarrow> TenantBillingData" where
  "applyPatch r p =
     r\<lparr>asaasCustomerId := (case patchCustomerId p of None \<Rightarrow> asaasCustomerId r | Some c \<Rightarrow> Some c),
       asaasSubscriptionId := (case patchSubscriptionId p of None \<Rightarrow> asaasSubscriptionId r | Some s \<Rightarrow> Some s),
       billingStatus := (case patchBillingStatus p of None \<Rightarrow> billingStatus r | Some b \<Rightarrow> b),
       subscriptionMetadata := (case patchSubscriptionMetadata p of None \<Rightarrow> subscriptionMetadata r | Some m \<Rightarrow> Some m)\<rparr>"

definition updateTenantBilling :: "TenantStore \<Rightarrow> string \<Rightarrow> TenantBillingPatch \<Rightarrow> TenantStore" where
  "updateTenantBilling st tenantId p =
     (case st tenantId of None \<Rightarrow> st | Some r \<Rightarrow> st(tenantId \<mapsto> applyPatch r p))"


section \<open>Access projection (BillingEnforcer.getBillingContext)\<close>

record BillingContext =
  ctxTenantId :: string
  ctxBillingStatus :: BillingStatus
  subscriptionActive :: bool
  inTrial :: bool
  isOverdue :: bool
  isSuspended :: bool
  ctxDaysOverdue :: "int option"

text \<open>The body of \<^verbatim>\<open>getBillingContext\<close> once the record has been read:
  \<^verbatim>\<open>billing.subscriptionMetadata?.daysOverdue\<close> is undefined when the metadata or the
  field is absent, and is copied otherwise.\<close>

definition billingContextOf :: "TenantBillingData \<Rightarrow> BillingContext" where
  "billingContextOf billing =
     \<lparr>ctxTenantId = tenant_id billing,
      ctxBillingStatus = billingStatus billing,
      subscriptionActive = hasFullAccess (billingStatus billing),
      inTrial = (billingStatus billing = TRIAL),
      isOverdue = (billingStatus billing = OVERDUE),
      isSuspended = (billingStatus billing = SUSPENDED \<or> billingStatus billing = CANCELED),
      ctxDaysOverdue = (case subscriptionMetadata billing of None \<Rightarrow> None | Some m \<Rightarrow> daysOverdue m)\<rparr>"

definition getBillingContext :: "TenantStore \<Rightarrow> string \<Rightarrow> BillingContext option" where
  "getBillingContext st tenantId =
     (case getTenantBilling st tenantId of None \<Rightarrow> None | Some billing \<Rightarrow> Some (billingContextOf billing))"


section \<open>Errors (billing-errors.ts)\<close>

datatype BillingError =
    WebhookInvalidError string "string option"
  | InvalidBillingTransitionError BillingStatus BillingStatus
  | BillingStatusInvalidError BillingStatus string
  | SubscriptionCancellationError string string
  | AsaasApiError string

fun errorMessage :: "BillingError \<Rightarrow> string" where
  "errorMessage (WebhookInvalidError m et) = m"
| "errorMessage (InvalidBillingTransitionError fromStatus toStatus) =
     ''Invalid billing status transition from '' @ [CHR 0x27] @ statusValue fromStatus @ [CHR 0x27]
       @ '' to '' @ [CHR 0x27] @ statusValue toStatus @ [CHR 0x27]"
| "errorMessage (BillingStatusInvalidError s m) = m"
| "errorMessage (SubscriptionCancellationError sid m) = m"
| "errorMessage (AsaasApiError m) = m"

fun isWebhookInvalid :: "BillingError \<Rightarrow> bool" where
  "isWebhookInvalid (WebhookInvalidError m et) = True"
| "isWebhookInvalid (InvalidBillingTransitionError a b) = False"
| "isWebhookInvalid (BillingStatusInvalidError s m) = False"
| "isWebhookInvalid (SubscriptionCancellationError sid m) = False"
| "isWebhookInvalid (AsaasApiError m) = False"

section \<open>ASAAS client and events (asaas-client.ts, asaas-events.ts)\<close>

text \<open>The part of a remote subscription that the service reads. The declared type of
  \<^verbatim>\<open>status\<close> is a union of three literals, but the mapping has a default branch, so the
  field is kept as the string received. \<^verbatim>\<open>nextDueDate\<close> is \<open>None\<close> when the field is
  absent or empty (falsy), else the time value of the parsed date.\<close>

record AsaasSubscriptionResponse =
  remoteStatus :: string
  deleted :: bool
  nextDueDate :: "int option"

text \<open>The outbound HTTP client is an external collaborator: each call either returns the
  response or throws an \<^verbatim>\<open>AsaasApiError\<close>.\<close>

record AsaasClient =
  getSubscription :: "string \<Rightarrow> BillingError + AsaasSubscriptionResponse"
  cancelRemoteSubscription :: "string \<Rightarrow> BillingError + unit"

definition asaasEventTypes :: "string list" where
  "asaasEventTypes =
    [''PAYMENT_CREATED'', ''PAYMENT_AWAITING_RISK_ANALYSIS'', ''PAYMENT_APPROVED_BY_RISK_ANALYSIS'',
     ''PAYMENT_REPROVED_BY_RISK_ANALYSIS'', ''PAYMENT_UPDATED'', ''PAYMENT_CONFIRMED'',
     ''PAYMENT_RECEIVED'', ''PAYMENT_ANTICIPATED'', ''PAYMENT_OVERDUE'', ''PAYMENT_DELETED'',
     ''PAYMENT_RESTORED'', ''PAYMENT_REFUNDED'', ''PAYMENT_RECEIVED_IN_CASH_UNDONE'',
     ''PAYMENT_CHARGEBACK_REQUESTED'', ''PAYMENT_CHARGEBACK_DISPUTE'',
     ''PAYMENT_AWAITING_CHARGEBACK_REVERSAL'', ''PAYMENT_DUNNING_RECEIVED'',
     ''PAYMENT_DUNNING_REQUESTED'',
     ''SUBSCRIPTION_CREATED'', ''SUBSCRIPTION_ACTIVATED'', ''SUBSCRIPTION_UPDATED'',
     ''SUBSCRIPTION_CANCELED'', ''SUBSCRIPTION_RENEWED'',
     ''TRANSFER_CREATED'', ''TRANSFER_PENDING'', ''TRANSFER_IN_BANK_PROCESSING'',
     ''TRANSFER_BLOCKED'', ''TRANSFER_DONE'', ''TRANSFER_FAILED'', ''TRANSFER_CANCELLED'',
     ''INVOICE_CREATED'', ''INVOICE_UPDATED'', ''INVOICE_SYNCHRONIZED'', ''INVOICE_AUTHORIZED'',
     ''INVOICE_PROCESSING_CANCELLATION'', ''INVOICE_CANCELED'', ''INVOICE_CANCELLATION_DENIED'',
     ''INVOICE_ERROR'']"

definition isAsaasEventType :: "string \<Rightarrow> bool" where
  "isAsaasEventType v = (v \<in> set asaasEventTypes)"

definition isPaymentEvent :: "string \<Rightarrow> bool" where
  "isPaymentEvent eventType = prefix ''PAYMENT_'' eventType"

definition isSubscriptionEvent :: "string \<Rightarrow> bool" where
  "isSubscriptionEvent eventType = prefix ''SUBSCRIPTION_'' eventType"

text \<open>The payload fields the handlers read. \<^verbatim>\<open>dueDate\<close> and \<^verbatim>\<open>confirmedDate\<close> are
  the time values of the parsed date strings.\<close>

record AsaasPaymentPayload =
  paymentId :: string
  paymentCustomer :: string
  paymentSubscription :: "string option"
  dueDate :: int
  confirmedDate :: "int option"

record AsaasSubscriptionPayload =
  subscriptionId :: string
  subscriptionCustomer :: string

record AsaasWebhookEvent =
  event :: string
  payment :: "AsaasPaymentPayload option"
  subscription :: "AsaasSubscriptionPayload option"


section \<open>Subscription service (subscription-service.ts)\<close>

record SubscriptionServiceConfig =
  asaasClient :: AsaasClient
  daysUntilSuspension :: "int option"

text \<open>A call that may throw returns the error or the value, together with the store as
  it is at that moment.\<close>

type_synonym 'a outcome = "(BillingError + 'a) \<times> TenantStore"

text \<open>JavaScript truthiness of an optional string: present and not empty.\<close>

definition truthy :: "string option \<Rightarrow> bool" where
  "truthy s = (case s of None \<Rightarrow> False | Some v \<Rightarrow> v \<noteq> [])"

definition suspensionThreshold :: "SubscriptionServiceConfig \<Rightarrow> int" where
  "suspensionThreshold cfg = (case daysUntilSuspension cfg of None \<Rightarrow> 15 | Some d \<Rightarrow> d)"

definition updateBillingStatus ::
  "TenantStore \<Rightarrow> string \<Rightarrow> BillingStatus \<Rightarrow> BillingStatus \<Rightarrow> unit outcome" where
  "updateBillingStatus st tenantId currentStatus newStatus =
     (if currentStatus = newStatus then (Inr (), st)
      else if \<not> isValidTransition currentStatus newStatus
        then (Inl (InvalidBillingTransitionError currentStatus newStatus), st)
      else (Inr (), updateTenantBilling st tenantId (emptyPatch\<lparr>patchBillingStatus := Some newStatus\<rparr>)))"

definition mapAsaasStatusToBillingStatus ::
  "AsaasSubscriptionResponse \<Rightarrow> BillingStatus \<Rightarrow> BillingStatus" where
  "mapAsaasStatusToBillingStatus sub currentStatus =
     (if deleted sub then CANCELED
      else if remoteStatus sub = ''ACTIVE'' then
        (if currentStatus = TRIAL \<or> currentStatus = PENDING_PAYMENT then currentStatus else ACTIVE)
      else if remoteStatus sub = ''INACTIVE'' then SUSPENDED
      else if remoteStatus sub = ''EXPIRED'' then CANCELED
      else currentStatus)"

definition metadataPatch :: "SubscriptionMetadata \<Rightarrow> TenantBillingPatch" where
  "metadataPatch m = emptyPatch\<lparr>patchSubscriptionMetadata := Some m\<rparr>"

text \<open>\<^verbatim>\<open>SubscriptionService.handlePaymentConfirmed\<close> and
  \<^verbatim>\<open>SubscriptionService.handlePaymentOverdue\<close>; the prefix tells them from the webhook
  handler's methods of the same names. The metadata written back is the object read at
  the start, with the one field changed.\<close>

definition svcHandlePaymentConfirmed :: "TenantStore \<Rightarrow> string \<Rightarrow> int \<Rightarrow> unit outcome" where
  "svcHandlePaymentConfirmed st tenantId paymentDate =
     (case getTenantBilling st tenantId of
        None \<Rightarrow> (Inl (BillingStatusInvalidError CANCELED ''Tenant not found''), st)
      | Some tenantBilling \<Rightarrow>
          (case updateBillingStatus st tenantId (billingStatus tenantBilling) ACTIVE of
             (Inl e, st1) \<Rightarrow> (Inl e, st1)
           | (Inr u, st1) \<Rightarrow>
               (case subscriptionMetadata tenantBilling of
                  None \<Rightarrow> (Inr (), st1)
                | Some m \<Rightarrow>
                    (Inr (), updateTenantBilling st1 tenantId
                       (metadataPatch (m\<lparr>lastPaymentDate := Some paymentDate, daysOverdue := None\<rparr>))))))"

definition svcHandlePaymentOverdue ::
  "SubscriptionServiceConfig \<Rightarrow> TenantStore \<Rightarrow> string \<Rightarrow> int \<Rightarrow> unit outcome" where
  "svcHandlePaymentOverdue cfg st tenantId days =
     (case getTenantBilling st tenantId of
        None \<Rightarrow> (Inl (BillingStatusInvalidError CANCELED ''Tenant not found''), st)
      | Some tenantBilling \<Rightarrow>
          (let newStatus = (if days \<ge> suspensionThreshold cfg then SUSPENDED else OVERDUE) in
           case (if billingStatus tenantBilling \<noteq> newStatus
                 then updateBillingStatus st tenantId (billingStatus tenantBilling) newStatus
                 else (Inr (), st)) of
             (Inl e, st1) \<Rightarrow> (Inl e, st1)
           | (Inr u, st1) \<Rightarrow>
               (case subscriptionMetadata tenantBilling of
                  None \<Rightarrow> (Inr (), st1)
                | Some m \<Rightarrow>
                    (Inr (), updateTenantBilling st1 tenantId
                       (metadataPatch (m\<lparr>daysOverdue := Some days\<rparr>))))))"

definition syncSubscriptionStatus ::
  "SubscriptionServiceConfig \<Rightarrow> TenantStore \<Rightarrow> string \<Rightarrow> TenantBillingData outcome" where
  "syncSubscriptionStatus cfg st tenantId =
     (case getTenantBilling st tenantId of
        None \<Rightarrow> (Inl (BillingStatusInvalidError CANCELED ''Tenant not found''), st)
      | Some tenantBilling \<Rightarrow>
          (if \<not> truthy (asaasSubscriptionId tenantBilling) then (Inr tenantBilling, st)
           else
             (case getSubscription (asaasClient cfg) (the (asaasSubscriptionId tenantBilling)) of
                Inl e \<Rightarrow> (Inl e, st)
              | Inr sub \<Rightarrow>
                  (let newStatus = mapAsaasStatusToBillingStatus sub (billingStatus tenantBilling) in
                   case (if newStatus \<noteq> billingStatus tenantBilling
                         then updateBillingStatus st tenantId (billingStatus tenantBilling) newStatus
                         else (Inr (), st)) of
                     (Inl e, st1) \<Rightarrow> (Inl e, st1)
                   | (Inr u, st1) \<Rightarrow>
                       (let tb1 = tenantBilling\<lparr>billingStatus := newStatus\<rparr> in
                        case (subscriptionMetadata tb1, nextDueDate sub) of
                          (Some m, Some d) \<Rightarrow>
                            (let m1 = m\<lparr>nextBillingDate := Some d\<rparr> in
                             (Inr (tb1\<lparr>subscriptionMetadata := Some m1\<rparr>),
                              updateTenantBilling st1 tenantId (metadataPatch m1)))
                        | _ \<Rightarrow> (Inr tb1, st1))))))"

text \<open>\<^verbatim>\<open>cancelSubscription\<close>: its own two error classes are rethrown as they are, any
  other error (here: a failure of the remote call) is wrapped.\<close>

definition cancelSubscription ::
  "SubscriptionServiceConfig \<Rightarrow> TenantStore \<Rightarrow> string \<Rightarrow> unit outcome" where
  "cancelSubscription cfg st tenantId =
     (case getTenantBilling st tenantId of
        None \<Rightarrow> (Inl (SubscriptionCancellationError ''unknown'' ''Tenant not found''), st)
      | Some tenantBilling \<Rightarrow>
          (if \<not> truthy (asaasSubscriptionId tenantBilling)
             then (Inl (SubscriptionCancellationError ''unknown'' ''Tenant has no active subscription''), st)
           else if \<not> isValidTransition (billingStatus tenantBilling) CANCELED
             then (Inl (InvalidBillingTransitionError (billingStatus tenantBilling) CANCELED), st)
           else
             (case cancelRemoteSubscription (asaasClient cfg) (the (asaasSubscriptionId tenantBilling)) of
                Inl e \<Rightarrow>
                  (Inl (SubscriptionCancellationError tenantId
                          (''Failed to cancel subscription: '' @ errorMessage e)), st)
              | Inr u \<Rightarrow>
                  (Inr (), updateTenantBilling st tenantId (emptyPatch\<lparr>patchBillingStatus := Some CANCELED\<rparr>)))))"


section \<open>Webhook handler (webhook-handler.ts)\<close>

text \<open>\<^verbatim>\<open>BillingService\<close> forwards \<^verbatim>\<open>handlePaymentConfirmed\<close>,
  \<^verbatim>\<open>handlePaymentOverdue\<close>, \<^verbatim>\<open>cancelSubscription\<close> and \<^verbatim>\<open>syncSubscriptionStatus\<close>
  unchanged to the subscription service it builds from its own client, callbacks and
  threshold, so the handler's \<^verbatim>\<open>billingService\<close> is that service's configuration. The two
  tenant lookups are callbacks that read the database.\<close>

record WebhookHandlerConfig =
  billingService :: SubscriptionServiceConfig
  getTenantByCustomerId :: "TenantStore \<Rightarrow> string \<Rightarrow> TenantBillingData option"
  getTenantBySubscriptionId :: "TenantStore \<Rightarrow> string \<Rightarrow> TenantBillingData option"
  webhookAccessToken :: "string option"
  daysUntilOverdueStatus :: "int option"

record WebhookProcessingResult =
  success :: bool
  eventType :: string
  resTenantId :: "string option"
  action :: "string option"
  error :: "string option"

definition okResult :: "string \<Rightarrow> string option \<Rightarrow> string \<Rightarrow> WebhookProcessingResult" where
  "okResult et tid act = \<lparr>success = True, eventType = et, resTenantId = tid, action = Some act, error = None\<rparr>"

definition validateAccessToken :: "WebhookHandlerConfig \<Rightarrow> string option \<Rightarrow> bool" where
  "validateAccessToken cfg token =
     (if \<not> truthy (webhookAccessToken cfg) then True else token = webhookAccessToken cfg)"

definition msPerDay :: int where
  "msPerDay = 1000 * 60 * 60 * 24"

text \<open>\<^verbatim>\<open>Math.max(0, Math.floor((now - dueDate) / msPerDay))\<close> on the time values of
  two valid dates; they are integers, and the quotient is taken exactly.\<close>

definition computeDaysOverdue :: "int \<Rightarrow> int \<Rightarrow> int" where
  "computeDaysOverdue now due = max 0 ((now - due) div msPerDay)"

definition handlePaymentCreated :: "TenantStore \<Rightarrow> TenantBillingData \<Rightarrow> WebhookProcessingResult outcome" where
  "handlePaymentCreated st tenant = (Inr (okResult ''PAYMENT_CREATED'' (Some (tenant_id tenant)) ''payment_registered''), st)"

definition handlePaymentConfirmed ::
  "WebhookHandlerConfig \<Rightarrow> TenantStore \<Rightarrow> TenantBillingData \<Rightarrow> AsaasPaymentPayload \<Rightarrow> int
     \<Rightarrow> WebhookProcessingResult outcome" where
  "handlePaymentConfirmed cfg st tenant p now =
     (let paymentDate = (case confirmedDate p of Some d \<Rightarrow> d | None \<Rightarrow> now) in
      case svcHandlePaymentConfirmed st (tenant_id tenant) paymentDate of
        (Inl e, st1) \<Rightarrow> (Inl e, st1)
      | (Inr u, st1) \<Rightarrow>
          (Inr (okResult ''PAYMENT_CONFIRMED'' (Some (tenant_id tenant)) ''tenant_activated''), st1))"

definition handlePaymentOverdue ::
  "WebhookHandlerConfig \<Rightarrow> TenantStore \<Rightarrow> TenantBillingData \<Rightarrow> AsaasPaymentPayload \<Rightarrow> int
     \<Rightarrow> WebhookProcessingResult outcome" where
  "handlePaymentOverdue cfg st tenant p now =
     (let days = computeDaysOverdue now (dueDate p) in
      case svcHandlePaymentOverdue (billingService cfg) st (tenant_id tenant) days of
        (Inl e, st1) \<Rightarrow> (Inl e, st1)
      | (Inr u, st1) \<Rightarrow>
          (Inr (okResult ''PAYMENT_OVERDUE'' (Some (tenant_id tenant))
                  (if days \<ge> (case daysUntilOverdueStatus cfg of None \<Rightarrow> 1 | Some d \<Rightarrow> d)
                   then ''tenant_overdue'' else ''overdue_warning'')), st1))"

definition handlePaymentRefunded :: "TenantStore \<Rightarrow> TenantBillingData \<Rightarrow> WebhookProcessingResult outcome" where
  "handlePaymentRefunded st tenant = (Inr (okResult ''PAYMENT_REFUNDED'' (Some (tenant_id tenant)) ''refund_registered''), st)"

definition handleSubscriptionActivated ::
  "WebhookHandlerConfig \<Rightarrow> TenantStore \<Rightarrow> TenantBillingData \<Rightarrow> WebhookProcessingResult outcome" where
  "handleSubscriptionActivated cfg st tenant =
     (case syncSubscriptionStatus (billingService cfg) st (tenant_id tenant) of
        (Inl e, st1) \<Rightarrow> (Inl e, st1)
      | (Inr tb, st1) \<Rightarrow>
          (Inr (okResult ''SUBSCRIPTION_ACTIVATED'' (Some (tenant_id tenant)) ''subscription_synced''), st1))"

text \<open>The \<^verbatim>\<open>try\<close> around \<^verbatim>\<open>cancelSubscription\<close> catches every error and runs the sync
  from the store as the failed call left it; an error of the sync is not caught here.\<close>

definition handleSubscriptionCanceled ::
  "WebhookHandlerConfig \<Rightarrow> TenantStore \<Rightarrow> TenantBillingData \<Rightarrow> WebhookProcessingResult outcome" where
  "handleSubscriptionCanceled cfg st tenant =
     (case (case cancelSubscription (billingService cfg) st (tenant_id tenant) of
              (Inl e, st1) \<Rightarrow>
                (case syncSubscriptionStatus (billingService cfg) st1 (tenant_id tenant) of
                   (Inl e2, st2) \<Rightarrow> (Inl e2, st2)
                 | (Inr tb, st2) \<Rightarrow> (Inr (), st2))
            | (Inr u, st1) \<Rightarrow> (Inr (), st1)) of
        (Inl e, st3) \<Rightarrow> (Inl e, st3)
      | (Inr u, st3) \<Rightarrow>
          (Inr (okResult ''SUBSCRIPTION_CANCELED'' (Some (tenant_id tenant)) ''tenant_canceled''), st3))"

definition handleSubscriptionUpdated ::
  "WebhookHandlerConfig \<Rightarrow> TenantStore \<Rightarrow> TenantBillingData \<Rightarrow> WebhookProcessingResult outcome" where
  "handleSubscriptionUpdated cfg st tenant =
     (case syncSubscriptionStatus (billingService cfg) st (tenant_id tenant) of
        (Inl e, st1) \<Rightarrow> (Inl e, st1)
      | (Inr tb, st1) \<Rightarrow>
          (Inr (okResult ''SUBSCRIPTION_UPDATED'' (Some (tenant_id tenant)) ''subscription_updated''), st1))"

text \<open>Tenant resolution, written inline at the head of \<^verbatim>\<open>handlePaymentEvent\<close> and of
  \<^verbatim>\<open>handleSubscriptionEvent\<close>: by subscription id first, by customer id otherwise.\<close>

definition resolvePaymentTenant ::
  "WebhookHandlerConfig \<Rightarrow> TenantStore \<Rightarrow> AsaasPaymentPayload \<Rightarrow> TenantBillingData option" where
  "resolvePaymentTenant cfg st p =
     (case (if truthy (paymentSubscription p)
            then getTenantBySubscriptionId cfg st (the (paymentSubscription p)) else None) of
        None \<Rightarrow> getTenantByCustomerId cfg st (paymentCustomer p)
      | Some t \<Rightarrow> Some t)"

definition resolveSubscriptionTenant ::
  "WebhookHandlerConfig \<Rightarrow> TenantStore \<Rightarrow> AsaasSubscriptionPayload \<Rightarrow> TenantBillingData option" where
  "resolveSubscriptionTenant cfg st s =
     (case getTenantBySubscriptionId cfg st (subscriptionId s) of
        None \<Rightarrow> getTenantByCustomerId cfg st (subscriptionCustomer s)
      | Some t \<Rightarrow> Some t)"

definition handlePaymentEvent ::
  "WebhookHandlerConfig \<Rightarrow> TenantStore \<Rightarrow> string \<Rightarrow> AsaasPaymentPayload option \<Rightarrow> int
     \<Rightarrow> WebhookProcessingResult outcome" where
  "handlePaymentEvent cfg st et pay now =
     (case pay of
        None \<Rightarrow> (Inl (WebhookInvalidError ''Payment payload is required for payment events'' (Some et)), st)
      | Some p \<Rightarrow>
          (case resolvePaymentTenant cfg st p of
             None \<Rightarrow> (Inr (okResult et None ''tenant_not_found''), st)
           | Some tenant \<Rightarrow>
               (if et = ''PAYMENT_CREATED'' then handlePaymentCreated st tenant
                else if et = ''PAYMENT_CONFIRMED'' \<or> et = ''PAYMENT_RECEIVED''
                  then handlePaymentConfirmed cfg st tenant p now
                else if et = ''PAYMENT_OVERDUE'' then handlePaymentOverdue cfg st tenant p now
                else if et = ''PAYMENT_REFUNDED'' then handlePaymentRefunded st tenant
                else (Inr (okResult et (Some (tenant_id tenant)) ''payment_event_ignored''), st))))"

definition handleSubscriptionEvent ::
  "WebhookHandlerConfig \<Rightarrow> TenantStore \<Rightarrow> string \<Rightarrow> AsaasSubscriptionPayload option
     \<Rightarrow> WebhookProcessingResult outcome" where
  "handleSubscriptionEvent cfg st et sub =
     (case sub of
        None \<Rightarrow> (Inl (WebhookInvalidError ''Subscription payload is required for subscription events'' (Some et)), st)
      | Some s \<Rightarrow>
          (case resolveSubscriptionTenant cfg st s of
             None \<Rightarrow> (Inr (okResult et None ''tenant_not_found''), st)
           | Some tenant \<Rightarrow>
               (if et = ''SUBSCRIPTION_ACTIVATED'' then handleSubscriptionActivated cfg st tenant
                else if et = ''SUBSCRIPTION_CANCELED'' then handleSubscriptionCanceled cfg st tenant
                else if et = ''SUBSCRIPTION_UPDATED'' \<or> et = ''SUBSCRIPTION_RENEWED''
                  then handleSubscriptionUpdated cfg st tenant
                else (Inr (okResult et (Some (tenant_id tenant)) ''subscription_event_ignored''), st))))"

text \<open>The \<^verbatim>\<open>try\<close> block of \<^verbatim>\<open>handleEvent\<close>, and \<^verbatim>\<open>handleEvent\<close> itself, whose
  \<^verbatim>\<open>catch\<close> turns every error into a result carrying the error's message. \<open>now\<close> is
  the clock reading the handlers take with \<^verbatim>\<open>new Date()\<close>.\<close>

definition handleEventTry ::
  "WebhookHandlerConfig \<Rightarrow> TenantStore \<Rightarrow> AsaasWebhookEvent \<Rightarrow> string option \<Rightarrow> int
     \<Rightarrow> WebhookProcessingResult outcome" where
  "handleEventTry cfg st ev accessToken now =
     (if \<not> validateAccessToken cfg accessToken
        then (Inl (WebhookInvalidError ''Invalid webhook access token'' None), st)
      else if \<not> isAsaasEventType (event ev)
        then (Inl (WebhookInvalidError (''Unknown event type: '' @ event ev) (Some (event ev))), st)
      else if isPaymentEvent (event ev) then handlePaymentEvent cfg st (event ev) (payment ev) now
      else if isSubscriptionEvent (event ev) then handleSubscriptionEvent cfg st (event ev) (subscription ev)
      else (Inr (okResult (event ev) None ''ignored''), st))"

definition handleEvent ::
  "WebhookHandlerConfig \<Rightarrow> TenantStore \<Rightarrow> AsaasWebhookEvent \<Rightarrow> string option \<Rightarrow> int
     \<Rightarrow> WebhookProcessingResult \<times> TenantStore" where
  "handleEvent cfg st ev accessToken now =
     (case handleEventTry cfg st ev accessToken now of
        (Inl e, st1) \<Rightarrow>
          (\<lparr>success = False, eventType = event ev, resTenantId = None, action = None,
            error = Some (errorMessage e)\<rparr>, st1)
      | (Inr r, st1) \<Rightarrow> (r, st1))"


section \<open>Webhook event ledger (database/migrations/008_create_webhook_events.sql)\<close>

datatype WebhookStatus = Pending | Processing | Processed | Failed | Ignored

text \<open>A row of \<^verbatim>\<open>webhook_events\<close>. The primary key is kept as a number, the JSON columns
  as text, and \<^verbatim>\<open>external_id\<close> is nullable.\<close>

record WebhookEventRecord =
  rowId :: nat
  source :: string
  externalEventId :: "string option"
  ledgerEventType :: string
  payload :: string
  status :: WebhookStatus
  attempts :: nat
  maxAttempts :: nat
  processedAt :: "int option"
  rowErrorMessage :: "string option"
  rowResult :: "string option"
  rowTenantId :: "string option"

type_synonym Ledger = "WebhookEventRecord list"

text \<open>\<^verbatim>\<open>CONSTRAINT unique_external_event UNIQUE (source, external_id)\<close>: no two rows agree
  on both columns; a row whose \<^verbatim>\<open>external_id\<close> is NULL conflicts with none. Together
  with the primary key this is what the table guarantees of every ledger.\<close>

definition dedupKeys :: "Ledger \<Rightarrow> (string \<times> string) list" where
  "dedupKeys ledger =
     map (\<lambda>r. (source r, the (externalEventId r))) (filter (\<lambda>r. externalEventId r \<noteq> None) ledger)"

definition ledgerOk :: "Ledger \<Rightarrow> bool" where
  "ledgerOk ledger = (distinct (map rowId ledger) \<and> distinct (dedupKeys ledger))"

text \<open>A freshly inserted row takes the column defaults: status pending, no attempts, at
  most three attempts.\<close>

definition freshId :: "Ledger \<Rightarrow> nat" where
  "freshId ledger = Suc (foldr (\<lambda>r m. max (rowId r) m) ledger 0)"

definition newEvent :: "nat \<Rightarrow> string \<Rightarrow> string option \<Rightarrow> string \<Rightarrow> string \<Rightarrow> WebhookEventRecord" where
  "newEvent i src eid ty pl =
     \<lparr>rowId = i, source = src, externalEventId = eid, ledgerEventType = ty, payload = pl,
      status = Pending, attempts = 0, maxAttempts = 3, processedAt = None,
      rowErrorMessage = None, rowResult = None, rowTenantId = None\<rparr>"

text \<open>\<^verbatim>\<open>UPDATE webhook_events SET ... WHERE id = ...\<close>.\<close>

definition storeRow :: "Ledger \<Rightarrow> WebhookEventRecord \<Rightarrow> Ledger" where
  "storeRow ledger r = map (\<lambda>x. if rowId x = rowId r then r else x) ledger"

text \<open>Modelled from the spec: the lookup of an existing record by
  \<open>(source, externalEventId)\<close> that \<open>ingest\<close> starts with. The repository has the table
  but no ingestion code. Without an external id there is nothing to look up.\<close>

definition findEvent :: "Ledger \<Rightarrow> string \<Rightarrow> string option \<Rightarrow> WebhookEventRecord option" where
  "findEvent ledger src eid =
     (case eid of
        None \<Rightarrow> None
      | Some e \<Rightarrow> find (\<lambda>r. source r = src \<and> externalEventId r = Some e) ledger)"

text \<open>Modelled from the spec: \<open>ingest(source, externalEventId?, eventType, payload)\<close>, which
  is not in the repository. An existing record with the same identifiers is returned as it
  is; otherwise a pending record is created.\<close>

definition ingest ::
  "Ledger \<Rightarrow> string \<Rightarrow> string option \<Rightarrow> string \<Rightarrow> string \<Rightarrow> WebhookEventRecord \<times> Ledger" where
  "ingest ledger src eid ty pl =
     (case findEvent ledger src eid of
        Some r \<Rightarrow> (r, ledger)
      | None \<Rightarrow> (newEvent (freshId ledger) src eid ty pl,
                 ledger @ [newEvent (freshId ledger) src eid ty pl]))"

text \<open>Modelled from the spec: the eligibility rule, which is not in the repository. A
  record is (re)processed when it is pending, processing or failed and has attempts left;
  a processed or ignored record never is.\<close>

definition eligible :: "WebhookEventRecord \<Rightarrow> bool" where
  "eligible r =
     ((status r = Pending \<or> status r = Processing \<or> status r = Failed) \<and> attempts r < maxAttempts r)"

text \<open>Modelled from the spec: one processing attempt, which is not in the repository. The
  attempt is counted and the record marked processing; the handler runs on the state it
  may change and answers with a result or an error message; success marks the record
  processed, failure marks it failed once the attempts are used up and pending
  otherwise.\<close>

definition processAttempt ::
  "('s \<Rightarrow> (string + string) \<times> 's) \<Rightarrow> int \<Rightarrow> WebhookEventRecord \<Rightarrow> 's \<Rightarrow> WebhookEventRecord \<times> 's" where
  "processAttempt handler now r s =
     (let r1 = r\<lparr>attempts := attempts r + 1, status := Processing\<rparr> in
      case handler s of
        (Inr res, s1) \<Rightarrow> (r1\<lparr>status := Processed, rowResult := Some res, processedAt := Some now\<rparr>, s1)
      | (Inl err, s1) \<Rightarrow>
          (if attempts r1 \<ge> maxAttempts r1
           then r1\<lparr>status := Failed, rowErrorMessage := Some err\<rparr>
           else r1\<lparr>status := Pending\<rparr>, s1))"

text \<open>Modelled from the spec: one delivery of a webhook, which is not in the repository:
  ingest, then a processing attempt when the record is eligible.\<close>

definition deliver ::
  "('s \<Rightarrow> (string + string) \<times> 's) \<Rightarrow> int \<Rightarrow> string \<Rightarrow> string option \<Rightarrow> string \<Rightarrow> string
     \<Rightarrow> Ledger \<times> 's \<Rightarrow> WebhookEventRecord \<times> Ledger \<times> 's" where
  "deliver handler now src eid ty pl ls =
     (case ingest (fst ls) src eid ty pl of
        (r, ledger1) \<Rightarrow>
          (if eligible r
           then (case processAttempt handler now r (snd ls) of
                   (r2, s2) \<Rightarrow> (r2, storeRow ledger1 r2, s2))
           else (r, ledger1, snd ls)))"


section \<open>Notions used in the statements\<close>

text \<open>The status \<^verbatim>\<open>SubscriptionService.handlePaymentOverdue\<close> aims at (its local
  \<^verbatim>\<open>newStatus\<close>).\<close>

definition overdueTarget :: "SubscriptionServiceConfig \<Rightarrow> int \<Rightarrow> BillingStatus" where
  "overdueTarget cfg days = (if days \<ge> suspensionThreshold cfg then SUSPENDED else OVERDUE)"

text \<open>The stored billing status and the stored \<^verbatim>\<open>daysOverdue\<close> of a tenant.\<close>

definition storedStatus :: "TenantStore \<Rightarrow> string \<Rightarrow> BillingStatus option" where
  "storedStatus st tenantId = map_option billingStatus (st tenantId)"

definition storedDaysOverdue :: "TenantStore \<Rightarrow> string \<Rightarrow> int option" where
  "storedDaysOverdue st tenantId = Option.bind (Option.bind (st tenantId) subscriptionMetadata) daysOverdue"

text \<open>A change of a tenant's stored status between two stores is legal when the status is
  the same or the pair is in the adjacency table.\<close>

definition legalStep :: "TenantStore \<Rightarrow> TenantStore \<Rightarrow> string \<Rightarrow> bool" where
  "legalStep st st' k =
     (storedStatus st' k = storedStatus st k
      \<or> (case (storedStatus st k, storedStatus st' k) of
            (Some a, Some b) \<Rightarrow> isValidTransition a b
          | _ \<Rightarrow> False))"


section \<open>A concrete tenant, configuration and event\<close>

text \<open>One tenant \<open>t1\<close> with customer \<open>cus_1\<close>, subscription \<open>sub_1\<close> and plan metadata
  recording ten days overdue; a handler configured with the access token \<open>secret\<close>, the
  default thresholds, lookups that read the store, and a remote that answers every
  \<^verbatim>\<open>getSubscription\<close> with a given snapshot.\<close>

definition exMetadata :: SubscriptionMetadata where
  "exMetadata = \<lparr>planId = ''pro'', planName = ''Pro'', priceInCents = 9990, currency = ''BRL'',
                  cycle = MONTHLY, trialEndDate = None, nextBillingDate = None,
                  lastPaymentDate = None, daysOverdue = Some 10, custom = []\<rparr>"

definition exTenant :: "BillingStatus \<Rightarrow> TenantBillingData" where
  "exTenant s = \<lparr>tenant_id = ''t1'', asaasCustomerId = Some ''cus_1'',
                  asaasSubscriptionId = Some ''sub_1'', billingStatus = s,
                  subscriptionMetadata = Some exMetadata\<rparr>"

definition exStore :: "BillingStatus \<Rightarrow> TenantStore" where
  "exStore s = [''t1'' \<mapsto> exTenant s]"

definition exConfig :: "AsaasSubscriptionResponse \<Rightarrow> WebhookHandlerConfig" where
  "exConfig remote =
     \<lparr>billingService =
        \<lparr>asaasClient = \<lparr>getSubscription = (\<lambda>i. Inr remote), cancelRemoteSubscription = (\<lambda>i. Inr ())\<rparr>,
         daysUntilSuspension = None\<rparr>,
      getTenantByCustomerId = (\<lambda>st c. if c = ''cus_1'' then st ''t1'' else None),
      getTenantBySubscriptionId = (\<lambda>st s. if s = ''sub_1'' then st ''t1'' else None),
      webhookAccessToken = Some ''secret'',
      daysUntilOverdueStatus = None\<rparr>"

definition exRemote :: "string \<Rightarrow> bool \<Rightarrow> AsaasSubscriptionResponse" where
  "exRemote s d = \<lparr>remoteStatus = s, deleted = d, nextDueDate = None\<rparr>"

definition exPayment :: "int \<Rightarrow> AsaasPaymentPayload" where
  "exPayment due = \<lparr>paymentId = ''pay_1'', paymentCustomer = ''cus_1'',
                     paymentSubscription = Some ''sub_1'', dueDate = due, confirmedDate = None\<rparr>"

definition exEvent :: "string \<Rightarrow> int \<Rightarrow> AsaasWebhookEvent" where
  "exEvent name due =
     \<lparr>event = name, payment = Some (exPayment due),
      subscription = Some \<lparr>subscriptionId = ''sub_1'', subscriptionCustomer = ''cus_1''\<rparr>\<rparr>"


section \<open>Basic facts about events, patches and the store\<close>

lemma known_events:
  "isAsaasEventType ''PAYMENT_OVERDUE''" "isPaymentEvent ''PAYMENT_OVERDUE''"
  "isAsaasEventType ''PAYMENT_CONFIRMED''" "isPaymentEvent ''PAYMENT_CONFIRMED''"
  "isAsaasEventType ''SUBSCRIPTION_CANCELED''" "\<not> isPaymentEvent ''SUBSCRIPTION_CANCELED''"
  "isSubscriptionEvent ''SUBSCRIPTION_CANCELED''"
  by (simp_all add: isAsaasEventType_def asaasEventTypes_def isPaymentEvent_def isSubscriptionEvent_def)

lemma applyPatch_status [simp]:
  "applyPatch r (emptyPatch\<lparr>patchBillingStatus := Some s\<rparr>) = r\<lparr>billingStatus := s\<rparr>"
  by (simp add: applyPatch_def emptyPatch_def)

lemma applyPatch_metadata [simp]:
  "applyPatch r (metadataPatch m) = r\<lparr>subscriptionMetadata := Some m\<rparr>"
  by (simp add: applyPatch_def emptyPatch_def metadataPatch_def)

lemma updateTenantBilling_Some:
  "st tid = Some r \<Longrightarrow> updateTenantBilling st tid p = st(tid \<mapsto> applyPatch r p)"
  by (simp add: updateTenantBilling_def)

lemma floor_days:
  "(a::int) div msPerDay = floor (rat_of_int a / rat_of_int (1000 * 60 * 60 * 24))"
proof -
  have "floor (rat_of_int a / rat_of_int msPerDay) = a div msPerDay"
    by (rule floor_divide_of_int_eq)
  then show ?thesis by (simp add: msPerDay_def)
qed

lemma ex_fixture_facts:
  "validateAccessToken (exConfig r) (Some ''secret'')"
  "event (exEvent n d) = n"
  "payment (exEvent n d) = Some (exPayment d)"
  "resolvePaymentTenant (exConfig r) (exStore s) (exPayment d) = Some (exTenant s)"
  "getTenantBilling (exStore s) (tenant_id (exTenant s)) = Some (exTenant s)"
  "tenant_id (exTenant s) = ''t1''"
  "billingStatus (exTenant s) = s"
  "daysUntilSuspension (billingService (exConfig r)) = None"
  by (simp_all add: validateAccessToken_def exConfig_def truthy_def exEvent_def exPayment_def
        resolvePaymentTenant_def exStore_def exTenant_def getTenantBilling_def)


section \<open>The state machine\<close>

text \<open>C1. \<^verbatim>\<open>isValidTransition(from, to)\<close> is true exactly when \<open>to\<close> is in the row of
  \<open>from\<close> in the adjacency table: trial to active, pending_payment, canceled;
  pending_payment to active, overdue, canceled; active to overdue, canceled; overdue to
  active, suspended, canceled; suspended to active, canceled; canceled to nothing. So it
  is false for every pair out of canceled and for every pair with \<open>from = to\<close>.\<close>

theorem isValidTransition_table:
  "isValidTransition TRIAL t = (t = ACTIVE \<or> t = PENDING_PAYMENT \<or> t = CANCELED)
   \<and> isValidTransition PENDING_PAYMENT t = (t = ACTIVE \<or> t = OVERDUE \<or> t = CANCELED)
   \<and> isValidTransition ACTIVE t = (t = OVERDUE \<or> t = CANCELED)
   \<and> isValidTransition OVERDUE t = (t = ACTIVE \<or> t = SUSPENDED \<or> t = CANCELED)
   \<and> isValidTransition SUSPENDED t = (t = ACTIVE \<or> t = CANCELED)
   \<and> isValidTransition CANCELED t = False
   \<and> isValidTransition s s = False"
  by (cases s) (auto simp: isValidTransition_def)


section \<open>The access projection\<close>

text \<open>C8. For a tenant whose billing record is \<open>r\<close>, \<^verbatim>\<open>getBillingContext\<close> returns a
  context computed from the record alone (the store is only read): \<open>subscriptionActive\<close>
  exactly for active and trial, \<open>inTrial\<close> exactly for trial, \<open>isOverdue\<close> exactly for
  overdue, \<open>isSuspended\<close> exactly for suspended and canceled, and \<open>daysOverdue\<close> copied
  from the subscription metadata when the metadata carries it.\<close>

theorem getBillingContext_projection:
  assumes "getTenantBilling st tid = Some r"
  shows "\<exists>c. getBillingContext st tid = Some c
           \<and> ctxBillingStatus c = billingStatus r
           \<and> subscriptionActive c = (billingStatus r = ACTIVE \<or> billingStatus r = TRIAL)
           \<and> inTrial c = (billingStatus r = TRIAL)
           \<and> isOverdue c = (billingStatus r = OVERDUE)
           \<and> isSuspended c = (billingStatus r = SUSPENDED \<or> billingStatus r = CANCELED)
           \<and> ctxDaysOverdue c = Option.bind (subscriptionMetadata r) daysOverdue"
  using assms
  by (simp add: getBillingContext_def billingContextOf_def hasFullAccess_def split: option.splits)

theorem getBillingContext_projection_witness:
  "getTenantBilling (exStore CANCELED) ''t1'' = Some (exTenant CANCELED)
   \<and> (\<exists>c. getBillingContext (exStore CANCELED) ''t1'' = Some c
           \<and> ctxBillingStatus c = CANCELED
           \<and> subscriptionActive c = False
           \<and> inTrial c = False
           \<and> isOverdue c = False
           \<and> isSuspended c = True
           \<and> ctxDaysOverdue c = Some 10)"
proof -
  have h: "getTenantBilling (exStore CANCELED) ''t1'' = Some (exTenant CANCELED)"
    by (simp add: getTenantBilling_def exStore_def)
  show ?thesis
    using h getBillingContext_projection [OF h]
    by (simp add: exTenant_def exMetadata_def)
qed


section \<open>Payment overdue\<close>

lemma svcHandlePaymentOverdue_eq:
  assumes "getTenantBilling st tid = Some tb"
  shows "svcHandlePaymentOverdue cfg st tid days =
    (if billingStatus tb = overdueTarget cfg days \<or> isValidTransition (billingStatus tb) (overdueTarget cfg days)
     then (Inr (), st(tid \<mapsto> tb\<lparr>billingStatus := overdueTarget cfg days,
              subscriptionMetadata := map_option (\<lambda>m. m\<lparr>daysOverdue := Some days\<rparr>) (subscriptionMetadata tb)\<rparr>))
     else (Inl (InvalidBillingTransitionError (billingStatus tb) (overdueTarget cfg days)), st))"
proof -
  have st: "st tid = Some tb" using assms by (simp add: getTenantBilling_def)
  have triv: "st(tid \<mapsto> tb) = st" using st by (simp add: map_upd_triv)
  show ?thesis
  proof (cases "billingStatus tb = overdueTarget cfg days")
    case True
    then show ?thesis using assms st triv
      by (cases "subscriptionMetadata tb")
         (auto simp: svcHandlePaymentOverdue_def overdueTarget_def Let_def updateTenantBilling_Some)
  next
    case False
    then show ?thesis using assms st
      by (cases "subscriptionMetadata tb")
         (auto simp: svcHandlePaymentOverdue_def overdueTarget_def Let_def updateBillingStatus_def
            updateTenantBilling_Some)
  qed
qed

lemma handleEventTry_payment:
  assumes "validateAccessToken cfg tok" "isAsaasEventType (event ev)" "isPaymentEvent (event ev)"
  shows "handleEventTry cfg st ev tok now = handlePaymentEvent cfg st (event ev) (payment ev) now"
  using assms by (simp add: handleEventTry_def)

lemma handleEventTry_overdue:
  assumes "validateAccessToken cfg tok" "event ev = ''PAYMENT_OVERDUE''" "payment ev = Some p"
    and "resolvePaymentTenant cfg st p = Some t"
  shows "handleEventTry cfg st ev tok now = handlePaymentOverdue cfg st t p now"
  using assms by (simp add: handleEventTry_payment known_events handlePaymentEvent_def)

lemma handleEventTry_confirmed:
  assumes "validateAccessToken cfg tok" "event ev = ''PAYMENT_CONFIRMED''" "payment ev = Some p"
    and "resolvePaymentTenant cfg st p = Some t"
  shows "handleEventTry cfg st ev tok now = handlePaymentConfirmed cfg st t p now"
  using assms by (simp add: handleEventTry_payment known_events handlePaymentEvent_def)

lemma handleEvent_overdue_eq:
  assumes "validateAccessToken cfg tok"
    and "event ev = ''PAYMENT_OVERDUE''"
    and "payment ev = Some p"
    and "resolvePaymentTenant cfg st p = Some t"
    and "getTenantBilling st (tenant_id t) = Some tb"
  shows "handleEventTry cfg st ev tok now =
    (if billingStatus tb = overdueTarget (billingService cfg) (computeDaysOverdue now (dueDate p))
        \<or> isValidTransition (billingStatus tb) (overdueTarget (billingService cfg) (computeDaysOverdue now (dueDate p)))
     then (Inr (okResult ''PAYMENT_OVERDUE'' (Some (tenant_id t))
                  (if computeDaysOverdue now (dueDate p) \<ge> (case daysUntilOverdueStatus cfg of None \<Rightarrow> 1 | Some d \<Rightarrow> d)
                   then ''tenant_overdue'' else ''overdue_warning'')),
           st(tenant_id t \<mapsto> tb\<lparr>billingStatus := overdueTarget (billingService cfg) (computeDaysOverdue now (dueDate p)),
              subscriptionMetadata := map_option (\<lambda>m. m\<lparr>daysOverdue := Some (computeDaysOverdue now (dueDate p))\<rparr>) (subscriptionMetadata tb)\<rparr>))
     else (Inl (InvalidBillingTransitionError (billingStatus tb)
                 (overdueTarget (billingService cfg) (computeDaysOverdue now (dueDate p)))), st))"
proof -
  have tr: "handleEventTry cfg st ev tok now = handlePaymentOverdue cfg st t p now"
    using assms(1-4) by (rule handleEventTry_overdue)
  show ?thesis
    unfolding tr handlePaymentOverdue_def Let_def
      svcHandlePaymentOverdue_eq[OF assms(5), of "billingService cfg" "computeDaysOverdue now (dueDate p)"]
    by simp
qed

lemma ex_days: "computeDaysOverdue 1382405000 (dueDate (exPayment 0)) = 16"
  by (simp add: computeDaysOverdue_def msPerDay_def exPayment_def)

lemma ex_overdue_on_active:
  "handleEventTry (exConfig r) (exStore ACTIVE) (exEvent ''PAYMENT_OVERDUE'' 0) (Some ''secret'') 1382405000
     = (Inl (InvalidBillingTransitionError ACTIVE SUSPENDED), exStore ACTIVE)"
  using handleEvent_overdue_eq [OF ex_fixture_facts(1) ex_fixture_facts(2) ex_fixture_facts(3)
      ex_fixture_facts(4) ex_fixture_facts(5), where now = 1382405000]
  by (simp add: ex_days ex_fixture_facts overdueTarget_def suspensionThreshold_def isValidTransition_def)

text \<open>C3. For a \<^verbatim>\<open>PAYMENT_OVERDUE\<close> event whose tenant resolves, the handler computes
  \<open>daysOverdue = max 0 (floor ((now - dueDate) / day))\<close> and aims at suspended when
  \<open>daysOverdue\<close> reaches the configured suspension threshold (15 when none is
  configured) and at overdue otherwise. When the current status already is the target, no
  transition is attempted (so none can be rejected), and when the transition to the target
  is valid it is applied; in both cases the event succeeds and the stored record carries
  the target status and, in its metadata, the computed \<open>daysOverdue\<close>. In the remaining
  case the event fails with the invalid transition from the current status to that same
  target, and the store is unchanged.\<close>

theorem payment_overdue_target:
  assumes "validateAccessToken cfg tok"
    and "event ev = ''PAYMENT_OVERDUE''"
    and "payment ev = Some p"
    and "resolvePaymentTenant cfg st p = Some t"
    and "getTenantBilling st (tenant_id t) = Some tb"
    and "days = computeDaysOverdue now (dueDate p)"
    and "target = (if days \<ge> (case daysUntilSuspension (billingService cfg) of None \<Rightarrow> 15 | Some d \<Rightarrow> d)
                   then SUSPENDED else OVERDUE)"
  shows "days = max 0 (floor (rat_of_int (now - dueDate p) / rat_of_int (1000 * 60 * 60 * 24)))
       \<and> (if billingStatus tb = target \<or> isValidTransition (billingStatus tb) target
          then success (fst (handleEvent cfg st ev tok now))
             \<and> snd (handleEvent cfg st ev tok now) =
                 st(tenant_id t \<mapsto> tb\<lparr>billingStatus := target,
                      subscriptionMetadata :=
                        map_option (\<lambda>m. m\<lparr>daysOverdue := Some days\<rparr>) (subscriptionMetadata tb)\<rparr>)
          else handleEvent cfg st ev tok now =
                 (\<lparr>success = False, eventType = ''PAYMENT_OVERDUE'', resTenantId = None, action = None,
                   error = Some (errorMessage (InvalidBillingTransitionError (billingStatus tb) target))\<rparr>,
                  st))"
proof -
  have tgt: "overdueTarget (billingService cfg) (computeDaysOverdue now (dueDate p)) = target"
    using assms(6,7) by (simp add: overdueTarget_def suspensionThreshold_def)
  have d: "days = max 0 (floor (rat_of_int (now - dueDate p) / rat_of_int (1000 * 60 * 60 * 24)))"
    using assms(6) floor_days[of "now - dueDate p"] by (simp add: computeDaysOverdue_def)
  note eq = handleEvent_overdue_eq[OF assms(1-5), of now, unfolded tgt]
  show ?thesis
  proof (cases "billingStatus tb = target \<or> isValidTransition (billingStatus tb) target")
    case True
    then show ?thesis using d eq assms(6)
      by (simp add: handleEvent_def okResult_def)
  next
    case False
    then show ?thesis using d eq assms(2)
      by (simp add: handleEvent_def)
  qed
qed

text \<open>The spec's example: a tenant in overdue with ten days recorded, the default threshold
  of 15, and an event sixteen days past due.\<close>

theorem payment_overdue_target_witness:
  "validateAccessToken (exConfig (exRemote ''ACTIVE'' False)) (Some ''secret'')
   \<and> resolvePaymentTenant (exConfig (exRemote ''ACTIVE'' False)) (exStore OVERDUE) (exPayment 0) = Some (exTenant OVERDUE)
   \<and> getTenantBilling (exStore OVERDUE) ''t1'' = Some (exTenant OVERDUE)
   \<and> computeDaysOverdue 1382405000 0 = 16
   \<and> isValidTransition OVERDUE SUSPENDED
   \<and> success (fst (handleEvent (exConfig (exRemote ''ACTIVE'' False)) (exStore OVERDUE)
                      (exEvent ''PAYMENT_OVERDUE'' 0) (Some ''secret'') 1382405000))
   \<and> storedStatus (snd (handleEvent (exConfig (exRemote ''ACTIVE'' False)) (exStore OVERDUE)
                      (exEvent ''PAYMENT_OVERDUE'' 0) (Some ''secret'') 1382405000)) ''t1'' = Some SUSPENDED
   \<and> storedDaysOverdue (snd (handleEvent (exConfig (exRemote ''ACTIVE'' False)) (exStore OVERDUE)
                      (exEvent ''PAYMENT_OVERDUE'' 0) (Some ''secret'') 1382405000)) ''t1'' = Some 16"
proof -
  let ?cfg = "exConfig (exRemote ''ACTIVE'' False)"
  have d: "computeDaysOverdue 1382405000 (dueDate (exPayment 0)) = 16"
    by (simp add: computeDaysOverdue_def msPerDay_def exPayment_def)
  have d0: "computeDaysOverdue 1382405000 0 = 16"
    by (simp add: computeDaysOverdue_def msPerDay_def)
  have v: "isValidTransition OVERDUE SUSPENDED" by (simp add: isValidTransition_def)
  have h6: "(16::int) = computeDaysOverdue 1382405000 (dueDate (exPayment 0))" using d by simp
  have h7: "SUSPENDED = (if (16::int) \<ge> (case daysUntilSuspension (billingService ?cfg) of None \<Rightarrow> 15 | Some d \<Rightarrow> d)
                   then SUSPENDED else OVERDUE)"
    by (simp add: ex_fixture_facts)
  have h8: "billingStatus (exTenant OVERDUE) = SUSPENDED \<or> isValidTransition (billingStatus (exTenant OVERDUE)) SUSPENDED"
    using v by (simp add: ex_fixture_facts)
  note r = payment_overdue_target [OF ex_fixture_facts(1) ex_fixture_facts(2) ex_fixture_facts(3)
      ex_fixture_facts(4) ex_fixture_facts(5) h6 h7]
  let ?res = "handleEvent ?cfg (exStore OVERDUE) (exEvent ''PAYMENT_OVERDUE'' 0) (Some ''secret'') 1382405000"
  have ok: "success (fst ?res)" using r h8 by simp
  have st: "snd ?res = (exStore OVERDUE)(''t1'' \<mapsto> (exTenant OVERDUE)\<lparr>billingStatus := SUSPENDED,
                subscriptionMetadata := map_option (\<lambda>m. m\<lparr>daysOverdue := Some 16\<rparr>) (subscriptionMetadata (exTenant OVERDUE))\<rparr>)"
    using r h8 by (simp add: ex_fixture_facts(6))
  have s1: "storedStatus (snd ?res) ''t1'' = Some SUSPENDED"
    by (simp add: st storedStatus_def)
  have s2: "storedDaysOverdue (snd ?res) ''t1'' = Some 16"
    by (simp add: st storedDaysOverdue_def exTenant_def)
  show ?thesis
    using ok s1 s2 d0 v ex_fixture_facts(1,4,5)
    by (simp add: ex_fixture_facts(6))
qed

text \<open>C4 as stated fails: for the active tenant \<open>t1\<close> (ten days recorded) an event sixteen
  days past due is rejected as an invalid transition, and the stored \<open>daysOverdue\<close> is
  not the computed 16.\<close>

theorem payment_overdue_days_lost_counterexample:
  "computeDaysOverdue 1382405000 (dueDate (exPayment 0)) = 16
   \<and> storedDaysOverdue (exStore ACTIVE) ''t1'' = Some 10
   \<and> \<not> success (fst (handleEvent (exConfig (exRemote ''ACTIVE'' False)) (exStore ACTIVE)
                        (exEvent ''PAYMENT_OVERDUE'' 0) (Some ''secret'') 1382405000))
   \<and> storedDaysOverdue (snd (handleEvent (exConfig (exRemote ''ACTIVE'' False)) (exStore ACTIVE)
                        (exEvent ''PAYMENT_OVERDUE'' 0) (Some ''secret'') 1382405000)) ''t1'' \<noteq> Some 16"
proof -
  have old: "storedDaysOverdue (exStore ACTIVE) ''t1'' = Some 10"
    by (simp add: storedDaysOverdue_def exStore_def exTenant_def exMetadata_def)
  show ?thesis
    using old by (simp add: ex_days handleEvent_def ex_overdue_on_active)
qed

text \<open>C4, as the code has it. For a \<^verbatim>\<open>PAYMENT_OVERDUE\<close> event whose tenant resolves
  and has subscription metadata: when the status transition is applied or skipped as a
  no-op, the event succeeds and the computed \<open>daysOverdue\<close> is stored in the metadata;
  when the transition is invalid, the error is raised before the metadata update, the
  event fails, the store is unchanged and the metadata keeps its previous
  \<open>daysOverdue\<close>.\<close>

theorem payment_overdue_days_persisted:
  assumes "validateAccessToken cfg tok"
    and "event ev = ''PAYMENT_OVERDUE''"
    and "payment ev = Some p"
    and "resolvePaymentTenant cfg st p = Some t"
    and "getTenantBilling st (tenant_id t) = Some tb"
    and "subscriptionMetadata tb = Some m"
    and "days = computeDaysOverdue now (dueDate p)"
    and "target = (if days \<ge> (case daysUntilSuspension (billingService cfg) of None \<Rightarrow> 15 | Some d \<Rightarrow> d)
                   then SUSPENDED else OVERDUE)"
  shows "(billingStatus tb = target \<or> isValidTransition (billingStatus tb) target \<longrightarrow>
            success (fst (handleEvent cfg st ev tok now))
          \<and> storedDaysOverdue (snd (handleEvent cfg st ev tok now)) (tenant_id t) = Some days)
       \<and> (billingStatus tb \<noteq> target \<and> \<not> isValidTransition (billingStatus tb) target \<longrightarrow>
            \<not> success (fst (handleEvent cfg st ev tok now))
          \<and> snd (handleEvent cfg st ev tok now) = st
          \<and> storedDaysOverdue (snd (handleEvent cfg st ev tok now)) (tenant_id t) = daysOverdue m)"
proof -
  have tgt: "overdueTarget (billingService cfg) (computeDaysOverdue now (dueDate p)) = target"
    using assms(7,8) by (simp add: overdueTarget_def suspensionThreshold_def)
  have old: "storedDaysOverdue st (tenant_id t) = daysOverdue m"
    using assms(5,6) by (simp add: storedDaysOverdue_def getTenantBilling_def)
  show ?thesis
    using handleEvent_overdue_eq[OF assms(1-5), of now] tgt assms(6,7) old
    by (auto simp: handleEvent_def okResult_def storedDaysOverdue_def)
qed

text \<open>Both cases on \<open>t1\<close>, sixteen days past due: from overdue the transition to
  suspended is applied and 16 is stored; from active it is invalid and 10 stays.\<close>

theorem payment_overdue_days_persisted_witness:
  "validateAccessToken (exConfig (exRemote ''ACTIVE'' False)) (Some ''secret'')
   \<and> resolvePaymentTenant (exConfig (exRemote ''ACTIVE'' False)) (exStore OVERDUE) (exPayment 0) = Some (exTenant OVERDUE)
   \<and> getTenantBilling (exStore OVERDUE) ''t1'' = Some (exTenant OVERDUE)
   \<and> subscriptionMetadata (exTenant OVERDUE) = Some exMetadata
   \<and> isValidTransition OVERDUE SUSPENDED
   \<and> storedDaysOverdue (snd (handleEvent (exConfig (exRemote ''ACTIVE'' False)) (exStore OVERDUE)
                        (exEvent ''PAYMENT_OVERDUE'' 0) (Some ''secret'') 1382405000)) ''t1'' = Some 16
   \<and> resolvePaymentTenant (exConfig (exRemote ''ACTIVE'' False)) (exStore ACTIVE) (exPayment 0) = Some (exTenant ACTIVE)
   \<and> getTenantBilling (exStore ACTIVE) ''t1'' = Some (exTenant ACTIVE)
   \<and> subscriptionMetadata (exTenant ACTIVE) = Some exMetadata
   \<and> ACTIVE \<noteq> SUSPENDED \<and> \<not> isValidTransition ACTIVE SUSPENDED
   \<and> snd (handleEvent (exConfig (exRemote ''ACTIVE'' False)) (exStore ACTIVE)
                        (exEvent ''PAYMENT_OVERDUE'' 0) (Some ''secret'') 1382405000) = exStore ACTIVE
   \<and> storedDaysOverdue (snd (handleEvent (exConfig (exRemote ''ACTIVE'' False)) (exStore ACTIVE)
                        (exEvent ''PAYMENT_OVERDUE'' 0) (Some ''secret'') 1382405000)) ''t1'' = Some 10"
proof -
  let ?cfg = "exConfig (exRemote ''ACTIVE'' False)"
  have m: "subscriptionMetadata (exTenant s) = Some exMetadata" for s
    by (simp add: exTenant_def)
  have h7: "(16::int) = computeDaysOverdue 1382405000 (dueDate (exPayment 0))" by (simp add: ex_days)
  have h8: "SUSPENDED = (if (16::int) \<ge> (case daysUntilSuspension (billingService ?cfg) of None \<Rightarrow> 15 | Some d \<Rightarrow> d)
                   then SUSPENDED else OVERDUE)"
    by (simp add: ex_fixture_facts)
  have v: "isValidTransition OVERDUE SUSPENDED" "\<not> isValidTransition ACTIVE SUSPENDED"
    by (simp_all add: isValidTransition_def)
  note a = payment_overdue_days_persisted [OF ex_fixture_facts(1) ex_fixture_facts(2) ex_fixture_facts(3)
      ex_fixture_facts(4) [where s = OVERDUE] ex_fixture_facts(5) m h7 h8]
  note b = payment_overdue_days_persisted [OF ex_fixture_facts(1) ex_fixture_facts(2) ex_fixture_facts(3)
      ex_fixture_facts(4) [where s = ACTIVE] ex_fixture_facts(5) m h7 h8]
  have d10: "daysOverdue exMetadata = Some 10" by (simp add: exMetadata_def)
  have old: "storedDaysOverdue (exStore ACTIVE) ''t1'' = Some 10"
    by (simp add: storedDaysOverdue_def exStore_def exTenant_def exMetadata_def)
  show ?thesis
    using a b v m d10 old ex_fixture_facts(1,4,5) by (simp add: ex_fixture_facts(6,7))
qed

section \<open>Payment confirmed\<close>

text \<open>C5. For a tenant whose stored status is canceled, a \<^verbatim>\<open>PAYMENT_CONFIRMED\<close> event
  raises \<^verbatim>\<open>InvalidBillingTransitionError(canceled, active)\<close>; \<^verbatim>\<open>handleEvent\<close> does not
  throw but returns a result with \<open>success = false\<close> and the error's message, and the
  store (status and metadata) is exactly as before.\<close>

theorem payment_confirmed_on_canceled:
  assumes "validateAccessToken cfg tok"
    and "event ev = ''PAYMENT_CONFIRMED''"
    and "payment ev = Some p"
    and "resolvePaymentTenant cfg st p = Some t"
    and "getTenantBilling st (tenant_id t) = Some tb"
    and "billingStatus tb = CANCELED"
  shows "handleEventTry cfg st ev tok now = (Inl (InvalidBillingTransitionError CANCELED ACTIVE), st)
       \<and> handleEvent cfg st ev tok now =
            (\<lparr>success = False, eventType = ''PAYMENT_CONFIRMED'', resTenantId = None, action = None,
              error = Some (errorMessage (InvalidBillingTransitionError CANCELED ACTIVE))\<rparr>, st)"
proof -
  have nv: "\<not> isValidTransition CANCELED ACTIVE" by (simp add: isValidTransition_def)
  have "handleEventTry cfg st ev tok now = handlePaymentConfirmed cfg st t p now"
    using assms(1-4) by (rule handleEventTry_confirmed)
  then have tr: "handleEventTry cfg st ev tok now = (Inl (InvalidBillingTransitionError CANCELED ACTIVE), st)"
    using assms(5,6) nv
    by (simp add: handlePaymentConfirmed_def svcHandlePaymentConfirmed_def updateBillingStatus_def Let_def)
  show ?thesis using tr assms(2) by (simp add: handleEvent_def)
qed

text \<open>The canceled tenant \<open>t1\<close>; the message reads
  \<^verbatim>\<open>Invalid billing status transition from 'canceled' to 'active'\<close>.\<close>

theorem payment_confirmed_on_canceled_witness:
  "validateAccessToken (exConfig (exRemote ''ACTIVE'' False)) (Some ''secret'')
   \<and> resolvePaymentTenant (exConfig (exRemote ''ACTIVE'' False)) (exStore CANCELED) (exPayment 0) = Some (exTenant CANCELED)
   \<and> getTenantBilling (exStore CANCELED) ''t1'' = Some (exTenant CANCELED)
   \<and> handleEvent (exConfig (exRemote ''ACTIVE'' False)) (exStore CANCELED)
        (exEvent ''PAYMENT_CONFIRMED'' 0) (Some ''secret'') 5 =
        (\<lparr>success = False, eventType = ''PAYMENT_CONFIRMED'', resTenantId = None, action = None,
          error = Some (''Invalid billing status transition from '' @ [CHR 0x27] @ ''canceled'' @ [CHR 0x27]
                         @ '' to '' @ [CHR 0x27] @ ''active'' @ [CHR 0x27])\<rparr>, exStore CANCELED)"
proof -
  note r = payment_confirmed_on_canceled [OF ex_fixture_facts(1) ex_fixture_facts(2) ex_fixture_facts(3)
      ex_fixture_facts(4) ex_fixture_facts(5) ex_fixture_facts(7), where now = 5]
  show ?thesis
    using r ex_fixture_facts(1,4,5) by (simp add: ex_fixture_facts(6))
qed


section \<open>Full sync\<close>

lemma syncSubscriptionStatus_keep:
  assumes "getTenantBilling st tid = Some tb"
    and "truthy (asaasSubscriptionId tb)"
    and "getSubscription (asaasClient cfg) (the (asaasSubscriptionId tb)) = Inr sub"
    and "mapAsaasStatusToBillingStatus sub (billingStatus tb) = billingStatus tb"
  shows "syncSubscriptionStatus cfg st tid =
     (case (subscriptionMetadata tb, nextDueDate sub) of
        (Some m, Some d) \<Rightarrow>
          (Inr (tb\<lparr>subscriptionMetadata := Some (m\<lparr>nextBillingDate := Some d\<rparr>)\<rparr>),
           st(tid \<mapsto> tb\<lparr>subscriptionMetadata := Some (m\<lparr>nextBillingDate := Some d\<rparr>)\<rparr>))
      | _ \<Rightarrow> (Inr tb, st))"
proof -
  have st: "st tid = Some tb" using assms(1) by (simp add: getTenantBilling_def)
  show ?thesis
    using assms st
    by (simp add: syncSubscriptionStatus_def Let_def updateTenantBilling_Some split: option.splits)
qed

lemma syncSubscriptionStatus_invalid:
  assumes "getTenantBilling st tid = Some tb"
    and "truthy (asaasSubscriptionId tb)"
    and "getSubscription (asaasClient cfg) (the (asaasSubscriptionId tb)) = Inr sub"
    and "mapAsaasStatusToBillingStatus sub (billingStatus tb) \<noteq> billingStatus tb"
    and "\<not> isValidTransition (billingStatus tb) (mapAsaasStatusToBillingStatus sub (billingStatus tb))"
  shows "syncSubscriptionStatus cfg st tid =
     (Inl (InvalidBillingTransitionError (billingStatus tb)
             (mapAsaasStatusToBillingStatus sub (billingStatus tb))), st)"
  using assms
  by (simp add: syncSubscriptionStatus_def Let_def updateBillingStatus_def)

text \<open>C2. The candidate status of a sync: a deleted remote subscription gives canceled
  whatever else it says; otherwise remote \<open>ACTIVE\<close> keeps a local trial or
  pending_payment and gives active for any other local status, remote \<open>INACTIVE\<close> gives
  suspended, remote \<open>EXPIRED\<close> gives canceled, and any other remote status keeps the
  local status. Hence a sync of a trial or pending_payment tenant against a remote
  \<open>ACTIVE\<close> snapshot returns and stores the unchanged status.\<close>

theorem sync_candidate_status:
  "mapAsaasStatusToBillingStatus (sub\<lparr>deleted := True\<rparr>) cur = CANCELED
   \<and> mapAsaasStatusToBillingStatus (sub\<lparr>deleted := False\<rparr>) cur =
       (if remoteStatus sub = ''ACTIVE'' then (if cur = TRIAL \<or> cur = PENDING_PAYMENT then cur else ACTIVE)
        else if remoteStatus sub = ''INACTIVE'' then SUSPENDED
        else if remoteStatus sub = ''EXPIRED'' then CANCELED
        else cur)
   \<and> (getTenantBilling st tid = Some tb
        \<and> (billingStatus tb = TRIAL \<or> billingStatus tb = PENDING_PAYMENT)
        \<and> truthy (asaasSubscriptionId tb)
        \<and> getSubscription (asaasClient cfg) (the (asaasSubscriptionId tb)) = Inr remote
        \<and> remoteStatus remote = ''ACTIVE'' \<and> \<not> deleted remote
      \<longrightarrow> (\<exists>tb'. fst (syncSubscriptionStatus cfg st tid) = Inr tb' \<and> billingStatus tb' = billingStatus tb)
          \<and> storedStatus (snd (syncSubscriptionStatus cfg st tid)) tid = Some (billingStatus tb))"
proof -
  have a: "mapAsaasStatusToBillingStatus (sub\<lparr>deleted := True\<rparr>) cur = CANCELED"
    by (simp add: mapAsaasStatusToBillingStatus_def)
  have b: "mapAsaasStatusToBillingStatus (sub\<lparr>deleted := False\<rparr>) cur =
       (if remoteStatus sub = ''ACTIVE'' then (if cur = TRIAL \<or> cur = PENDING_PAYMENT then cur else ACTIVE)
        else if remoteStatus sub = ''INACTIVE'' then SUSPENDED
        else if remoteStatus sub = ''EXPIRED'' then CANCELED
        else cur)"
    by (simp add: mapAsaasStatusToBillingStatus_def)
  have c: "(\<exists>tb'. fst (syncSubscriptionStatus cfg st tid) = Inr tb' \<and> billingStatus tb' = billingStatus tb)
          \<and> storedStatus (snd (syncSubscriptionStatus cfg st tid)) tid = Some (billingStatus tb)"
    if h: "getTenantBilling st tid = Some tb"
        "billingStatus tb = TRIAL \<or> billingStatus tb = PENDING_PAYMENT"
        "truthy (asaasSubscriptionId tb)"
        "getSubscription (asaasClient cfg) (the (asaasSubscriptionId tb)) = Inr remote"
        "remoteStatus remote = ''ACTIVE''" "\<not> deleted remote"
  proof -
    have keep: "mapAsaasStatusToBillingStatus remote (billingStatus tb) = billingStatus tb"
      using h(2,5,6) by (auto simp: mapAsaasStatusToBillingStatus_def)
    have st: "st tid = Some tb" using h(1) by (simp add: getTenantBilling_def)
    show ?thesis
      unfolding syncSubscriptionStatus_keep[OF h(1) h(3) h(4) keep]
      using st by (simp add: storedStatus_def split: option.splits)
  qed
  show ?thesis using a b c by blast
qed

lemma ex_remote_facts:
  "truthy (asaasSubscriptionId (exTenant s))"
  "getSubscription (asaasClient (billingService (exConfig r))) i = Inr r"
  "remoteStatus (exRemote n d) = n"
  "deleted (exRemote n d) = d"
  "subscription (exEvent n k) = Some \<lparr>subscriptionId = ''sub_1'', subscriptionCustomer = ''cus_1''\<rparr>"
  "resolveSubscriptionTenant (exConfig r) (exStore s)
     \<lparr>subscriptionId = ''sub_1'', subscriptionCustomer = ''cus_1''\<rparr> = Some (exTenant s)"
  by (simp_all add: truthy_def exTenant_def exConfig_def exRemote_def exEvent_def
        resolveSubscriptionTenant_def exStore_def)

text \<open>The trial tenant \<open>t1\<close> synced against a remote \<open>ACTIVE\<close> snapshot.\<close>

theorem sync_candidate_status_witness:
  "getTenantBilling (exStore TRIAL) ''t1'' = Some (exTenant TRIAL)
   \<and> billingStatus (exTenant TRIAL) = TRIAL
   \<and> truthy (asaasSubscriptionId (exTenant TRIAL))
   \<and> getSubscription (asaasClient (billingService (exConfig (exRemote ''ACTIVE'' False))))
        (the (asaasSubscriptionId (exTenant TRIAL))) = Inr (exRemote ''ACTIVE'' False)
   \<and> remoteStatus (exRemote ''ACTIVE'' False) = ''ACTIVE'' \<and> \<not> deleted (exRemote ''ACTIVE'' False)
   \<and> (\<exists>tb'. fst (syncSubscriptionStatus (billingService (exConfig (exRemote ''ACTIVE'' False)))
                    (exStore TRIAL) ''t1'') = Inr tb' \<and> billingStatus tb' = TRIAL)
   \<and> storedStatus (snd (syncSubscriptionStatus (billingService (exConfig (exRemote ''ACTIVE'' False)))
                    (exStore TRIAL) ''t1'')) ''t1'' = Some TRIAL"
proof -
  have g: "getTenantBilling (exStore TRIAL) ''t1'' = Some (exTenant TRIAL)"
    using ex_fixture_facts(5)[of TRIAL] by (simp add: ex_fixture_facts(6))
  note r = sync_candidate_status [of _ _ "exStore TRIAL" "''t1''" "exTenant TRIAL"
      "billingService (exConfig (exRemote ''ACTIVE'' False))" "exRemote ''ACTIVE'' False",
      THEN conjunct2, THEN conjunct2, rule_format]
  have "(\<exists>tb'. fst (syncSubscriptionStatus (billingService (exConfig (exRemote ''ACTIVE'' False)))
                    (exStore TRIAL) ''t1'') = Inr tb' \<and> billingStatus tb' = billingStatus (exTenant TRIAL))
   \<and> storedStatus (snd (syncSubscriptionStatus (billingService (exConfig (exRemote ''ACTIVE'' False)))
                    (exStore TRIAL) ''t1'')) ''t1'' = Some (billingStatus (exTenant TRIAL))"
    by (rule r) (simp add: g ex_fixture_facts(7) ex_remote_facts)
  then show ?thesis
    using g by (simp add: ex_fixture_facts(7) ex_remote_facts)
qed


section \<open>The dispatcher\<close>

lemma validateAccessToken_mismatch:
  "truthy (webhookAccessToken cfg) \<Longrightarrow> tok \<noteq> webhookAccessToken cfg \<Longrightarrow> \<not> validateAccessToken cfg tok"
  by (simp add: validateAccessToken_def)

text \<open>C6. \<^verbatim>\<open>handleEvent\<close> fails closed: when an access token is configured (present
  and not empty, which is what the handler's guard tests) and the
  token received differs from it, or when the event type is not a member of
  \<^verbatim>\<open>AsaasEventType\<close>, a \<^verbatim>\<open>WebhookInvalidError\<close> is raised, the result has
  \<open>success = false\<close> with that error's message, and the store is untouched. When the
  token is accepted and the event type is known but starts with neither \<open>PAYMENT_\<close> nor
  \<open>SUBSCRIPTION_\<close>, the result is \<open>success = true\<close> with action \<open>ignored\<close>, again
  with the store untouched.\<close>

theorem handleEvent_fails_closed:
  "((truthy (webhookAccessToken cfg) \<and> tok \<noteq> webhookAccessToken cfg) \<or> \<not> isAsaasEventType (event ev)
      \<longrightarrow> (\<exists>e. handleEventTry cfg st ev tok now = (Inl e, st) \<and> isWebhookInvalid e
              \<and> handleEvent cfg st ev tok now =
                  (\<lparr>success = False, eventType = event ev, resTenantId = None, action = None,
                    error = Some (errorMessage e)\<rparr>, st)))
   \<and> (validateAccessToken cfg tok \<and> isAsaasEventType (event ev)
        \<and> \<not> isPaymentEvent (event ev) \<and> \<not> isSubscriptionEvent (event ev)
      \<longrightarrow> handleEvent cfg st ev tok now =
            (\<lparr>success = True, eventType = event ev, resTenantId = None, action = Some ''ignored'',
              error = None\<rparr>, st))"
proof (intro conjI impI)
  assume bad: "(truthy (webhookAccessToken cfg) \<and> tok \<noteq> webhookAccessToken cfg) \<or> \<not> isAsaasEventType (event ev)"
  show "\<exists>e. handleEventTry cfg st ev tok now = (Inl e, st) \<and> isWebhookInvalid e
              \<and> handleEvent cfg st ev tok now =
                  (\<lparr>success = False, eventType = event ev, resTenantId = None, action = None,
                    error = Some (errorMessage e)\<rparr>, st)"
  proof (cases "validateAccessToken cfg tok")
    case False
    then have "handleEventTry cfg st ev tok now = (Inl (WebhookInvalidError ''Invalid webhook access token'' None), st)"
      by (simp add: handleEventTry_def)
    then show ?thesis by (simp add: handleEvent_def)
  next
    case True
    with bad have "\<not> isAsaasEventType (event ev)"
      using validateAccessToken_mismatch by blast
    with True have "handleEventTry cfg st ev tok now =
        (Inl (WebhookInvalidError (''Unknown event type: '' @ event ev) (Some (event ev))), st)"
      by (simp add: handleEventTry_def)
    then show ?thesis by (simp add: handleEvent_def)
  qed
next
  assume "validateAccessToken cfg tok \<and> isAsaasEventType (event ev)
        \<and> \<not> isPaymentEvent (event ev) \<and> \<not> isSubscriptionEvent (event ev)"
  then show "handleEvent cfg st ev tok now =
            (\<lparr>success = True, eventType = event ev, resTenantId = None, action = Some ''ignored'',
              error = None\<rparr>, st)"
    by (simp add: handleEvent_def handleEventTry_def okResult_def)
qed

text \<open>A wrong token, the unknown type \<open>PAYMENT_LOST\<close>, and the known type
  \<open>TRANSFER_DONE\<close>.\<close>

theorem handleEvent_fails_closed_witness:
  "truthy (webhookAccessToken (exConfig (exRemote ''ACTIVE'' False)))
   \<and> Some ''wrong'' \<noteq> webhookAccessToken (exConfig (exRemote ''ACTIVE'' False))
   \<and> (\<exists>e. isWebhookInvalid e
          \<and> handleEvent (exConfig (exRemote ''ACTIVE'' False)) (exStore TRIAL)
               (exEvent ''PAYMENT_CONFIRMED'' 0) (Some ''wrong'') 5 =
             (\<lparr>success = False, eventType = ''PAYMENT_CONFIRMED'', resTenantId = None, action = None,
               error = Some (errorMessage e)\<rparr>, exStore TRIAL))
   \<and> \<not> isAsaasEventType (event (exEvent ''PAYMENT_LOST'' 0))
   \<and> (\<exists>e. isWebhookInvalid e
          \<and> handleEvent (exConfig (exRemote ''ACTIVE'' False)) (exStore TRIAL)
               (exEvent ''PAYMENT_LOST'' 0) (Some ''secret'') 5 =
             (\<lparr>success = False, eventType = ''PAYMENT_LOST'', resTenantId = None, action = None,
               error = Some (errorMessage e)\<rparr>, exStore TRIAL))
   \<and> validateAccessToken (exConfig (exRemote ''ACTIVE'' False)) (Some ''secret'')
   \<and> isAsaasEventType (event (exEvent ''TRANSFER_DONE'' 0))
   \<and> \<not> isPaymentEvent (event (exEvent ''TRANSFER_DONE'' 0))
   \<and> \<not> isSubscriptionEvent (event (exEvent ''TRANSFER_DONE'' 0))
   \<and> handleEvent (exConfig (exRemote ''ACTIVE'' False)) (exStore TRIAL)
        (exEvent ''TRANSFER_DONE'' 0) (Some ''secret'') 5 =
      (\<lparr>success = True, eventType = ''TRANSFER_DONE'', resTenantId = None, action = Some ''ignored'',
        error = None\<rparr>, exStore TRIAL)"
proof -
  let ?cfg = "exConfig (exRemote ''ACTIVE'' False)"
  have t: "truthy (webhookAccessToken ?cfg)" "Some ''wrong'' \<noteq> webhookAccessToken ?cfg"
    by (simp_all add: exConfig_def truthy_def)
  have u: "\<not> isAsaasEventType (event (exEvent ''PAYMENT_LOST'' 0))"
    by (simp add: ex_fixture_facts(2) isAsaasEventType_def asaasEventTypes_def)
  have k: "isAsaasEventType (event (exEvent ''TRANSFER_DONE'' 0))"
     "\<not> isPaymentEvent (event (exEvent ''TRANSFER_DONE'' 0))"
     "\<not> isSubscriptionEvent (event (exEvent ''TRANSFER_DONE'' 0))"
    by (simp_all add: ex_fixture_facts(2) isAsaasEventType_def asaasEventTypes_def
          isPaymentEvent_def isSubscriptionEvent_def)
  note a = handleEvent_fails_closed [of ?cfg "Some ''wrong''" "exEvent ''PAYMENT_CONFIRMED'' 0" "exStore TRIAL" 5,
      THEN conjunct1, rule_format, OF disjI1, OF conjI, OF t]
  note b = handleEvent_fails_closed [of ?cfg "Some ''secret''" "exEvent ''PAYMENT_LOST'' 0" "exStore TRIAL" 5,
      THEN conjunct1, rule_format, OF disjI2, OF u]
  note c = handleEvent_fails_closed [of ?cfg "Some ''secret''" "exEvent ''TRANSFER_DONE'' 0" "exStore TRIAL" 5,
      THEN conjunct2, rule_format, OF conjI, OF ex_fixture_facts(1) conjI, OF k(1) conjI, OF k(2) k(3)]
  from a have a': "\<exists>e. isWebhookInvalid e
          \<and> handleEvent ?cfg (exStore TRIAL) (exEvent ''PAYMENT_CONFIRMED'' 0) (Some ''wrong'') 5 =
             (\<lparr>success = False, eventType = ''PAYMENT_CONFIRMED'', resTenantId = None, action = None,
               error = Some (errorMessage e)\<rparr>, exStore TRIAL)"
    by (auto simp: ex_fixture_facts(2))
  from b have b': "\<exists>e. isWebhookInvalid e
          \<and> handleEvent ?cfg (exStore TRIAL) (exEvent ''PAYMENT_LOST'' 0) (Some ''secret'') 5 =
             (\<lparr>success = False, eventType = ''PAYMENT_LOST'', resTenantId = None, action = None,
               error = Some (errorMessage e)\<rparr>, exStore TRIAL)"
    by (auto simp: ex_fixture_facts(2))
  from c have c': "handleEvent ?cfg (exStore TRIAL) (exEvent ''TRANSFER_DONE'' 0) (Some ''secret'') 5 =
      (\<lparr>success = True, eventType = ''TRANSFER_DONE'', resTenantId = None, action = Some ''ignored'',
        error = None\<rparr>, exStore TRIAL)"
    by (simp add: ex_fixture_facts(2))
  show ?thesis
    using t u k a' b' c' ex_fixture_facts(1)[of "exRemote ''ACTIVE'' False"] by blast
qed


section \<open>Subscription canceled\<close>

lemma cancelSubscription_on_canceled:
  assumes "getTenantBilling st tid = Some tb" and "billingStatus tb = CANCELED"
  shows "\<exists>e. cancelSubscription cfg st tid = (Inl e, st)"
  using assms by (simp add: cancelSubscription_def isValidTransition_def)

lemma map_canceled_keep:
  "(mapAsaasStatusToBillingStatus sub CANCELED = CANCELED) =
   (deleted sub \<or> (remoteStatus sub \<noteq> ''ACTIVE'' \<and> remoteStatus sub \<noteq> ''INACTIVE''))"
  by (simp add: mapAsaasStatusToBillingStatus_def)

lemma syncSubscriptionStatus_on_canceled:
  assumes "getTenantBilling st tid = Some tb" and "billingStatus tb = CANCELED"
  shows "(\<exists>tb'. fst (syncSubscriptionStatus cfg st tid) = Inr tb') =
           (\<not> truthy (asaasSubscriptionId tb)
            \<or> (\<exists>sub. getSubscription (asaasClient cfg) (the (asaasSubscriptionId tb)) = Inr sub
                  \<and> (deleted sub \<or> (remoteStatus sub \<noteq> ''ACTIVE'' \<and> remoteStatus sub \<noteq> ''INACTIVE''))))"
    and "storedStatus (snd (syncSubscriptionStatus cfg st tid)) tid = Some CANCELED"
proof -
  have st: "st tid = Some tb" using assms(1) by (simp add: getTenantBilling_def)
  have s0: "storedStatus st tid = Some CANCELED" using st assms(2) by (simp add: storedStatus_def)
  show "(\<exists>tb'. fst (syncSubscriptionStatus cfg st tid) = Inr tb') =
           (\<not> truthy (asaasSubscriptionId tb)
            \<or> (\<exists>sub. getSubscription (asaasClient cfg) (the (asaasSubscriptionId tb)) = Inr sub
                  \<and> (deleted sub \<or> (remoteStatus sub \<noteq> ''ACTIVE'' \<and> remoteStatus sub \<noteq> ''INACTIVE''))))"
  proof (cases "truthy (asaasSubscriptionId tb)")
    case False
    then show ?thesis using assms by (simp add: syncSubscriptionStatus_def)
  next
    case True
    show ?thesis
    proof (cases "getSubscription (asaasClient cfg) (the (asaasSubscriptionId tb))")
      case (Inl e)
      then show ?thesis using assms True by (simp add: syncSubscriptionStatus_def)
    next
      case (Inr sub)
      show ?thesis
      proof (cases "mapAsaasStatusToBillingStatus sub CANCELED = CANCELED")
        case keep: True
        then have "mapAsaasStatusToBillingStatus sub (billingStatus tb) = billingStatus tb"
          using assms(2) by simp
        from syncSubscriptionStatus_keep[OF assms(1) True Inr this] keep Inr True
        show ?thesis by (simp add: map_canceled_keep split: option.splits)
      next
        case chg: False
        then have ne: "mapAsaasStatusToBillingStatus sub (billingStatus tb) \<noteq> billingStatus tb"
          using assms(2) by simp
        have nv: "\<not> isValidTransition (billingStatus tb) (mapAsaasStatusToBillingStatus sub (billingStatus tb))"
          using assms(2) by (simp add: isValidTransition_def)
        from syncSubscriptionStatus_invalid[OF assms(1) True Inr ne nv] chg Inr True
        show ?thesis by (simp add: map_canceled_keep)
      qed
    qed
  qed
  show "storedStatus (snd (syncSubscriptionStatus cfg st tid)) tid = Some CANCELED"
  proof (cases "truthy (asaasSubscriptionId tb)")
    case False
    then show ?thesis using assms s0 by (simp add: syncSubscriptionStatus_def)
  next
    case True
    show ?thesis
    proof (cases "getSubscription (asaasClient cfg) (the (asaasSubscriptionId tb))")
      case (Inl e)
      then show ?thesis using assms True s0 by (simp add: syncSubscriptionStatus_def)
    next
      case (Inr sub)
      show ?thesis
      proof (cases "mapAsaasStatusToBillingStatus sub CANCELED = CANCELED")
        case keep: True
        then have "mapAsaasStatusToBillingStatus sub (billingStatus tb) = billingStatus tb"
          using assms(2) by simp
        from syncSubscriptionStatus_keep[OF assms(1) True Inr this] s0 st assms(2)
        show ?thesis by (simp add: storedStatus_def split: option.splits)
      next
        case chg: False
        then have ne: "mapAsaasStatusToBillingStatus sub (billingStatus tb) \<noteq> billingStatus tb"
          using assms(2) by simp
        have nv: "\<not> isValidTransition (billingStatus tb) (mapAsaasStatusToBillingStatus sub (billingStatus tb))"
          using assms(2) by (simp add: isValidTransition_def)
        from syncSubscriptionStatus_invalid[OF assms(1) True Inr ne nv] s0
        show ?thesis by simp
      qed
    qed
  qed
qed

lemma handleEventTry_subscription_canceled:
  assumes "validateAccessToken cfg tok" "event ev = ''SUBSCRIPTION_CANCELED''" "subscription ev = Some s"
    and "resolveSubscriptionTenant cfg st s = Some t"
  shows "handleEventTry cfg st ev tok now = handleSubscriptionCanceled cfg st t"
  using assms by (simp add: handleEventTry_def known_events handleSubscriptionEvent_def)

lemma handleSubscriptionCanceled_fallback:
  assumes "cancelSubscription (billingService cfg) st (tenant_id t) = (Inl e, st)"
  shows "handleSubscriptionCanceled cfg st t =
     (case syncSubscriptionStatus (billingService cfg) st (tenant_id t) of
        (Inl e2, st2) \<Rightarrow> (Inl e2, st2)
      | (Inr tb', st2) \<Rightarrow>
          (Inr (okResult ''SUBSCRIPTION_CANCELED'' (Some (tenant_id t)) ''tenant_canceled''), st2))"
  using assms by (simp add: handleSubscriptionCanceled_def split: prod.splits sum.splits)

text \<open>C7, as the code has it. For a \<^verbatim>\<open>SUBSCRIPTION_CANCELED\<close> event whose resolved
  tenant is already canceled, \<^verbatim>\<open>cancelSubscription\<close> fails with the store untouched and
  the handler falls back to \<^verbatim>\<open>syncSubscriptionStatus\<close>. The result is
  \<open>success = true\<close> (action \<open>tenant_canceled\<close>, no error) exactly when that sync
  succeeds: the tenant has no subscription id, or the remote snapshot is fetched and is
  deleted or has a status other than \<open>ACTIVE\<close> and \<open>INACTIVE\<close>. In every case the
  stored status stays canceled.\<close>

theorem subscription_canceled_already_canceled:
  assumes "validateAccessToken cfg tok"
    and "event ev = ''SUBSCRIPTION_CANCELED''"
    and "subscription ev = Some s"
    and "resolveSubscriptionTenant cfg st s = Some t"
    and "getTenantBilling st (tenant_id t) = Some tb"
    and "billingStatus tb = CANCELED"
  shows "(\<exists>e. cancelSubscription (billingService cfg) st (tenant_id t) = (Inl e, st))
       \<and> handleEventTry cfg st ev tok now =
           (case syncSubscriptionStatus (billingService cfg) st (tenant_id t) of
              (Inl e2, st2) \<Rightarrow> (Inl e2, st2)
            | (Inr tb', st2) \<Rightarrow>
                (Inr (okResult ''SUBSCRIPTION_CANCELED'' (Some (tenant_id t)) ''tenant_canceled''), st2))
       \<and> success (fst (handleEvent cfg st ev tok now)) =
           (\<not> truthy (asaasSubscriptionId tb)
            \<or> (\<exists>sub. getSubscription (asaasClient (billingService cfg)) (the (asaasSubscriptionId tb)) = Inr sub
                  \<and> (deleted sub \<or> (remoteStatus sub \<noteq> ''ACTIVE'' \<and> remoteStatus sub \<noteq> ''INACTIVE''))))
       \<and> (success (fst (handleEvent cfg st ev tok now)) \<longrightarrow>
            action (fst (handleEvent cfg st ev tok now)) = Some ''tenant_canceled''
            \<and> error (fst (handleEvent cfg st ev tok now)) = None)
       \<and> storedStatus (snd (handleEvent cfg st ev tok now)) (tenant_id t) = Some CANCELED"
proof -
  obtain e where c: "cancelSubscription (billingService cfg) st (tenant_id t) = (Inl e, st)"
    using cancelSubscription_on_canceled[OF assms(5,6)] by blast
  have tr: "handleEventTry cfg st ev tok now =
           (case syncSubscriptionStatus (billingService cfg) st (tenant_id t) of
              (Inl e2, st2) \<Rightarrow> (Inl e2, st2)
            | (Inr tb', st2) \<Rightarrow>
                (Inr (okResult ''SUBSCRIPTION_CANCELED'' (Some (tenant_id t)) ''tenant_canceled''), st2))"
    using handleEventTry_subscription_canceled[OF assms(1-4)] handleSubscriptionCanceled_fallback[OF c]
    by simp
  obtain r st2 where sy: "syncSubscriptionStatus (billingService cfg) st (tenant_id t) = (r, st2)"
    by (cases "syncSubscriptionStatus (billingService cfg) st (tenant_id t)")
  have ok: "success (fst (handleEvent cfg st ev tok now)) =
              (\<exists>tb'. fst (syncSubscriptionStatus (billingService cfg) st (tenant_id t)) = Inr tb')"
    using tr sy by (cases r) (simp_all add: handleEvent_def okResult_def)
  have act: "success (fst (handleEvent cfg st ev tok now)) \<longrightarrow>
            action (fst (handleEvent cfg st ev tok now)) = Some ''tenant_canceled''
            \<and> error (fst (handleEvent cfg st ev tok now)) = None"
    using tr sy by (cases r) (simp_all add: handleEvent_def okResult_def)
  have sn: "snd (handleEvent cfg st ev tok now) = snd (syncSubscriptionStatus (billingService cfg) st (tenant_id t))"
    using tr sy by (cases r) (simp_all add: handleEvent_def)
  show ?thesis
    using c tr act
    unfolding ok sn syncSubscriptionStatus_on_canceled[OF assms(5,6)]
    by blast
qed

text \<open>C7 as stated fails: the canceled tenant \<open>t1\<close> with a remote snapshot that is
  \<open>ACTIVE\<close> and not deleted. The fallback sync wants canceled to active, and the
  invalid transition is surfaced as \<open>success = false\<close>.\<close>

theorem subscription_canceled_sync_rejects_counterexample:
  "storedStatus (exStore CANCELED) ''t1'' = Some CANCELED
   \<and> resolveSubscriptionTenant (exConfig (exRemote ''ACTIVE'' False)) (exStore CANCELED)
        \<lparr>subscriptionId = ''sub_1'', subscriptionCustomer = ''cus_1''\<rparr> = Some (exTenant CANCELED)
   \<and> handleEvent (exConfig (exRemote ''ACTIVE'' False)) (exStore CANCELED)
        (exEvent ''SUBSCRIPTION_CANCELED'' 0) (Some ''secret'') 5 =
      (\<lparr>success = False, eventType = ''SUBSCRIPTION_CANCELED'', resTenantId = None, action = None,
        error = Some (errorMessage (InvalidBillingTransitionError CANCELED ACTIVE))\<rparr>, exStore CANCELED)"
proof -
  let ?cfg = "exConfig (exRemote ''ACTIVE'' False)"
  have s0: "storedStatus (exStore CANCELED) ''t1'' = Some CANCELED"
    by (simp add: storedStatus_def exStore_def exTenant_def)
  have g: "getTenantBilling (exStore CANCELED) ''t1'' = Some (exTenant CANCELED)"
    by (simp add: getTenantBilling_def exStore_def)
  obtain e where c: "cancelSubscription (billingService ?cfg) (exStore CANCELED) (tenant_id (exTenant CANCELED))
                       = (Inl e, exStore CANCELED)"
    using cancelSubscription_on_canceled[OF ex_fixture_facts(5) ex_fixture_facts(7)] by blast
  have m: "mapAsaasStatusToBillingStatus (exRemote ''ACTIVE'' False) (billingStatus (exTenant CANCELED)) = ACTIVE"
    by (simp add: mapAsaasStatusToBillingStatus_def ex_remote_facts ex_fixture_facts(7))
  have sy: "syncSubscriptionStatus (billingService ?cfg) (exStore CANCELED) (tenant_id (exTenant CANCELED)) =
      (Inl (InvalidBillingTransitionError CANCELED ACTIVE), exStore CANCELED)"
    using syncSubscriptionStatus_invalid[OF ex_fixture_facts(5)[of CANCELED] ex_remote_facts(1)[of CANCELED]
        ex_remote_facts(2)[of "exRemote ''ACTIVE'' False"]] m
    by (simp add: ex_fixture_facts(7) isValidTransition_def)
  have tr: "handleEventTry ?cfg (exStore CANCELED) (exEvent ''SUBSCRIPTION_CANCELED'' 0) (Some ''secret'') 5
              = (Inl (InvalidBillingTransitionError CANCELED ACTIVE), exStore CANCELED)"
    using handleEventTry_subscription_canceled[OF ex_fixture_facts(1)[of "exRemote ''ACTIVE'' False"]
        ex_fixture_facts(2)[of "''SUBSCRIPTION_CANCELED''" 0]
        ex_remote_facts(5) ex_remote_facts(6)[of _ CANCELED], where now = 5]
      handleSubscriptionCanceled_fallback[OF c] sy
    by simp
  show ?thesis
    using s0 tr by (simp add: handleEvent_def ex_fixture_facts(2) ex_remote_facts(6))
qed

text \<open>The canceled tenant \<open>t1\<close> with a remote snapshot that is deleted.\<close>

theorem subscription_canceled_already_canceled_witness:
  "validateAccessToken (exConfig (exRemote ''ACTIVE'' True)) (Some ''secret'')
   \<and> resolveSubscriptionTenant (exConfig (exRemote ''ACTIVE'' True)) (exStore CANCELED)
        \<lparr>subscriptionId = ''sub_1'', subscriptionCustomer = ''cus_1''\<rparr> = Some (exTenant CANCELED)
   \<and> getTenantBilling (exStore CANCELED) ''t1'' = Some (exTenant CANCELED)
   \<and> billingStatus (exTenant CANCELED) = CANCELED
   \<and> success (fst (handleEvent (exConfig (exRemote ''ACTIVE'' True)) (exStore CANCELED)
        (exEvent ''SUBSCRIPTION_CANCELED'' 0) (Some ''secret'') 5))
   \<and> action (fst (handleEvent (exConfig (exRemote ''ACTIVE'' True)) (exStore CANCELED)
        (exEvent ''SUBSCRIPTION_CANCELED'' 0) (Some ''secret'') 5)) = Some ''tenant_canceled''
   \<and> storedStatus (snd (handleEvent (exConfig (exRemote ''ACTIVE'' True)) (exStore CANCELED)
        (exEvent ''SUBSCRIPTION_CANCELED'' 0) (Some ''secret'') 5)) ''t1'' = Some CANCELED"
proof -
  let ?cfg = "exConfig (exRemote ''ACTIVE'' True)"
  note r = subscription_canceled_already_canceled [OF ex_fixture_facts(1)[of "exRemote ''ACTIVE'' True"]
      ex_fixture_facts(2)[of "''SUBSCRIPTION_CANCELED''" 0]
      ex_remote_facts(5) ex_remote_facts(6) ex_fixture_facts(5) ex_fixture_facts(7), where now = 5]
  have ok: "success (fst (handleEvent ?cfg (exStore CANCELED) (exEvent ''SUBSCRIPTION_CANCELED'' 0) (Some ''secret'') 5))"
    using r by (simp add: ex_remote_facts)
  have act: "action (fst (handleEvent ?cfg (exStore CANCELED) (exEvent ''SUBSCRIPTION_CANCELED'' 0) (Some ''secret'') 5))
               = Some ''tenant_canceled''"
    using r ok by blast
  have stt: "storedStatus (snd (handleEvent ?cfg (exStore CANCELED) (exEvent ''SUBSCRIPTION_CANCELED'' 0) (Some ''secret'') 5)) ''t1''
               = Some CANCELED"
    using r by (simp add: ex_fixture_facts(6))
  show ?thesis
    using ok act stt ex_fixture_facts(1,5,7) ex_remote_facts(6)
    by (simp add: ex_fixture_facts(6))
qed


section \<open>Every status change made by the handler is in the adjacency table\<close>

lemma legalStep_refl [simp]: "legalStep st st k"
  by (simp add: legalStep_def)

lemma storedStatus_metadata [simp]:
  "storedStatus (updateTenantBilling st tid (metadataPatch m)) k = storedStatus st k"
  by (simp add: storedStatus_def updateTenantBilling_def split: option.splits)

lemma legalStep_metadata [simp]:
  "legalStep st (updateTenantBilling st' tid (metadataPatch m)) k = legalStep st st' k"
  by (simp add: legalStep_def)

lemma legalStep_updateBillingStatus:
  assumes "st tid = Some tb"
  shows "legalStep st (snd (updateBillingStatus st tid (billingStatus tb) new)) k"
  using assms
  by (simp add: updateBillingStatus_def legalStep_def storedStatus_def updateTenantBilling_Some)

lemma legalStep_svcHandlePaymentConfirmed:
  "legalStep st (snd (svcHandlePaymentConfirmed st tid d)) k"
proof (cases "st tid")
  case None
  then show ?thesis by (simp add: svcHandlePaymentConfirmed_def getTenantBilling_def)
next
  case (Some tb)
  obtain r st1 where u: "updateBillingStatus st tid (billingStatus tb) ACTIVE = (r, st1)"
    by (cases "updateBillingStatus st tid (billingStatus tb) ACTIVE")
  have "legalStep st st1 k" using legalStep_updateBillingStatus[of st tid tb ACTIVE k] Some u by simp
  then show ?thesis using Some u
    by (cases r) (simp_all add: svcHandlePaymentConfirmed_def getTenantBilling_def split: option.splits)
qed

lemma legalStep_svcHandlePaymentOverdue:
  "legalStep st (snd (svcHandlePaymentOverdue cfg st tid d)) k"
proof (cases "st tid")
  case None
  then show ?thesis by (simp add: svcHandlePaymentOverdue_def getTenantBilling_def)
next
  case (Some tb)
  obtain r st1 where u: "updateBillingStatus st tid (billingStatus tb) (overdueTarget cfg d) = (r, st1)"
    by (cases "updateBillingStatus st tid (billingStatus tb) (overdueTarget cfg d)")
  have "legalStep st st1 k" using legalStep_updateBillingStatus[of st tid tb "overdueTarget cfg d" k] Some u by simp
  then show ?thesis using Some u
    by (cases r)
       (simp_all add: svcHandlePaymentOverdue_def getTenantBilling_def Let_def overdueTarget_def
          split: option.splits)
qed

lemma legalStep_syncSubscriptionStatus:
  "legalStep st (snd (syncSubscriptionStatus cfg st tid)) k"
proof (cases "st tid")
  case None
  then show ?thesis by (simp add: syncSubscriptionStatus_def getTenantBilling_def)
next
  case (Some tb)
  show ?thesis
  proof (cases "truthy (asaasSubscriptionId tb)")
    case False
    then show ?thesis using Some by (simp add: syncSubscriptionStatus_def getTenantBilling_def)
  next
    case True
    show ?thesis
    proof (cases "getSubscription (asaasClient cfg) (the (asaasSubscriptionId tb))")
      case (Inl e)
      then show ?thesis using Some True by (simp add: syncSubscriptionStatus_def getTenantBilling_def)
    next
      case (Inr sub)
      let ?new = "mapAsaasStatusToBillingStatus sub (billingStatus tb)"
      obtain r st1 where u: "updateBillingStatus st tid (billingStatus tb) ?new = (r, st1)"
        by (cases "updateBillingStatus st tid (billingStatus tb) ?new")
      have "legalStep st st1 k" using legalStep_updateBillingStatus[of st tid tb ?new k] Some u by simp
      then show ?thesis using Some True Inr u
        by (cases r)
           (simp_all add: syncSubscriptionStatus_def getTenantBilling_def Let_def
              split: option.splits)
    qed
  qed
qed

lemma cancelSubscription_error_store:
  "cancelSubscription cfg st tid = (Inl e, st1) \<Longrightarrow> st1 = st"
  by (auto simp: cancelSubscription_def split: option.splits if_splits sum.splits)

lemma legalStep_cancelSubscription:
  "legalStep st (snd (cancelSubscription cfg st tid)) k"
  by (auto simp: cancelSubscription_def getTenantBilling_def legalStep_def storedStatus_def
        updateTenantBilling_Some split: option.splits sum.splits)

lemma legalStep_handleSubscriptionCanceled:
  "legalStep st (snd (handleSubscriptionCanceled cfg st t)) k"
proof -
  obtain r st1 where c: "cancelSubscription (billingService cfg) st (tenant_id t) = (r, st1)"
    by (cases "cancelSubscription (billingService cfg) st (tenant_id t)")
  show ?thesis
  proof (cases r)
    case (Inl e)
    then have eq: "st1 = st" using c cancelSubscription_error_store by blast
    obtain r2 st2 where sy: "syncSubscriptionStatus (billingService cfg) st (tenant_id t) = (r2, st2)"
      by (cases "syncSubscriptionStatus (billingService cfg) st (tenant_id t)")
    have "legalStep st st2 k"
      using legalStep_syncSubscriptionStatus[of st "billingService cfg" "tenant_id t" k] sy by simp
    then show ?thesis
      using c Inl eq sy by (cases r2) (simp_all add: handleSubscriptionCanceled_def)
  next
    case (Inr u)
    then show ?thesis
      using c legalStep_cancelSubscription[of st "billingService cfg" "tenant_id t" k]
      by (simp add: handleSubscriptionCanceled_def)
  qed
qed

lemma legalStep_handlePaymentConfirmed:
  "legalStep st (snd (handlePaymentConfirmed cfg st t p now)) k"
proof -
  let ?d = "case confirmedDate p of Some d \<Rightarrow> d | None \<Rightarrow> now"
  obtain r st1 where c: "svcHandlePaymentConfirmed st (tenant_id t) ?d = (r, st1)"
    by (cases "svcHandlePaymentConfirmed st (tenant_id t) ?d")
  have "legalStep st st1 k"
    using legalStep_svcHandlePaymentConfirmed[of st "tenant_id t" ?d k] c by simp
  then show ?thesis using c by (cases r) (simp_all add: handlePaymentConfirmed_def Let_def)
qed

lemma legalStep_handlePaymentOverdue:
  "legalStep st (snd (handlePaymentOverdue cfg st t p now)) k"
proof -
  let ?d = "computeDaysOverdue now (dueDate p)"
  obtain r st1 where c: "svcHandlePaymentOverdue (billingService cfg) st (tenant_id t) ?d = (r, st1)"
    by (cases "svcHandlePaymentOverdue (billingService cfg) st (tenant_id t) ?d")
  have "legalStep st st1 k"
    using legalStep_svcHandlePaymentOverdue[of st "billingService cfg" "tenant_id t" ?d k] c by simp
  then show ?thesis using c by (cases r) (simp_all add: handlePaymentOverdue_def Let_def)
qed

lemma legalStep_sync_handlers:
  "legalStep st (snd (handleSubscriptionActivated cfg st t)) k"
  "legalStep st (snd (handleSubscriptionUpdated cfg st t)) k"
proof -
  obtain r2 st2 where sy: "syncSubscriptionStatus (billingService cfg) st (tenant_id t) = (r2, st2)"
    by (cases "syncSubscriptionStatus (billingService cfg) st (tenant_id t)")
  have l: "legalStep st st2 k"
    using legalStep_syncSubscriptionStatus[of st "billingService cfg" "tenant_id t" k] sy by simp
  show "legalStep st (snd (handleSubscriptionActivated cfg st t)) k"
    using l sy by (cases r2) (simp_all add: handleSubscriptionActivated_def)
  show "legalStep st (snd (handleSubscriptionUpdated cfg st t)) k"
    using l sy by (cases r2) (simp_all add: handleSubscriptionUpdated_def)
qed

lemma legalStep_handlePaymentEvent:
  "legalStep st (snd (handlePaymentEvent cfg st et pay now)) k"
proof (cases pay)
  case None
  then show ?thesis by (simp add: handlePaymentEvent_def)
next
  case (Some p)
  show ?thesis
  proof (cases "resolvePaymentTenant cfg st p")
    case None
    then show ?thesis using Some by (simp add: handlePaymentEvent_def)
  next
    case (Some t)
    then show ?thesis using \<open>pay = Some p\<close>
      by (simp add: handlePaymentEvent_def handlePaymentCreated_def handlePaymentRefunded_def
            legalStep_handlePaymentConfirmed legalStep_handlePaymentOverdue)
  qed
qed

lemma legalStep_handleSubscriptionEvent:
  "legalStep st (snd (handleSubscriptionEvent cfg st et sub)) k"
proof (cases sub)
  case None
  then show ?thesis by (simp add: handleSubscriptionEvent_def)
next
  case (Some s)
  show ?thesis
  proof (cases "resolveSubscriptionTenant cfg st s")
    case None
    then show ?thesis using Some by (simp add: handleSubscriptionEvent_def)
  next
    case (Some t)
    then show ?thesis using \<open>sub = Some s\<close>
      by (simp add: handleSubscriptionEvent_def legalStep_sync_handlers
            legalStep_handleSubscriptionCanceled)
  qed
qed

lemma legalStep_handleEventTry:
  "legalStep st (snd (handleEventTry cfg st ev tok now)) k"
  by (simp add: handleEventTry_def legalStep_handlePaymentEvent legalStep_handleSubscriptionEvent)

lemma legalStep_handleEvent:
  "legalStep st (snd (handleEvent cfg st ev tok now)) k"
proof -
  obtain r st1 where c: "handleEventTry cfg st ev tok now = (r, st1)"
    by (cases "handleEventTry cfg st ev tok now")
  have "legalStep st st1 k" using legalStep_handleEventTry[of st cfg ev tok now k] c by simp
  then show ?thesis using c by (cases r) (simp_all add: handleEvent_def)
qed

lemma no_active_to_suspended:
  "storedStatus st k = Some ACTIVE \<Longrightarrow> storedStatus (snd (handleEvent cfg st ev tok now)) k \<noteq> Some SUSPENDED"
  using legalStep_handleEvent[of st cfg ev tok now k]
  by (auto simp: legalStep_def isValidTransition_def split: option.splits)


section \<open>The dedup ledger\<close>

lemma rowId_le_fold: "r \<in> set ledger \<Longrightarrow> rowId r \<le> foldr (\<lambda>r m. max (rowId r) m) ledger 0"
  by (induction ledger) auto

lemma freshId_fresh: "freshId ledger \<notin> rowId ` set ledger"
proof
  assume "freshId ledger \<in> rowId ` set ledger"
  then obtain r where "r \<in> set ledger" "rowId r = freshId ledger" by auto
  then show False using rowId_le_fold[of r ledger] by (simp add: freshId_def)
qed

lemma findEvent_None_keys:
  "findEvent ledger src (Some e) = None \<Longrightarrow> (src, e) \<notin> set (dedupKeys ledger)"
  by (auto simp: findEvent_def dedupKeys_def find_None_iff)

lemma findEvent_Some_mem:
  "findEvent ledger src eid = Some r \<Longrightarrow> r \<in> set ledger \<and> source r = src \<and> externalEventId r = eid"
  by (cases eid) (auto simp: findEvent_def find_Some_iff)

lemma dedupKeys_append:
  "dedupKeys (ledger @ [r]) =
     dedupKeys ledger @ (case externalEventId r of None \<Rightarrow> [] | Some e \<Rightarrow> [(source r, e)])"
  by (cases "externalEventId r") (simp_all add: dedupKeys_def)

lemma ledgerOk_ingest:
  assumes "ledgerOk ledger"
  shows "ledgerOk (snd (ingest ledger src eid ty pl))"
proof (cases "findEvent ledger src eid")
  case (Some r)
  then show ?thesis using assms by (simp add: ingest_def)
next
  case None
  have id: "rowId (newEvent (freshId ledger) src eid ty pl) \<notin> rowId ` set ledger"
    using freshId_fresh[of ledger] by (simp add: newEvent_def)
  show ?thesis
  proof (cases eid)
    case N: None
    then show ?thesis using assms None id
      by (simp add: ingest_def ledgerOk_def dedupKeys_append) (simp add: newEvent_def)
  next
    case (Some e)
    then have "(src, e) \<notin> set (dedupKeys ledger)" using None findEvent_None_keys by simp
    then show ?thesis using assms None id Some
      by (simp add: ingest_def ledgerOk_def dedupKeys_append) (simp add: newEvent_def)
  qed
qed

lemma ingest_mem:
  "fst (ingest ledger src eid ty pl) \<in> set (snd (ingest ledger src eid ty pl))"
  by (cases "findEvent ledger src eid") (auto simp: ingest_def dest: findEvent_Some_mem)

lemma ingest_key:
  "source (fst (ingest ledger src eid ty pl)) = src
   \<and> externalEventId (fst (ingest ledger src eid ty pl)) = eid"
  by (cases "findEvent ledger src eid") (auto simp: ingest_def newEvent_def dest: findEvent_Some_mem)

lemma storeRow_same:
  assumes "distinct (map rowId ledger)" and "r \<in> set ledger"
    and "rowId r2 = rowId r"
  shows "storeRow ledger r2 = map (\<lambda>x. if x = r then r2 else x) ledger"
proof -
  have "rowId x = rowId r2 \<longleftrightarrow> x = r" if "x \<in> set ledger" for x
    using assms that by (auto simp: distinct_map dest: inj_onD)
  then show ?thesis by (simp add: storeRow_def)
qed

lemma storeRow_keeps:
  assumes "distinct (map rowId ledger)" and "r \<in> set ledger"
    and "rowId r2 = rowId r" and "source r2 = source r" and "externalEventId r2 = externalEventId r"
  shows "map rowId (storeRow ledger r2) = map rowId ledger"
    and "dedupKeys (storeRow ledger r2) = dedupKeys ledger"
proof -
  show "map rowId (storeRow ledger r2) = map rowId ledger"
    using assms(3) by (simp add: storeRow_def)
  show "dedupKeys (storeRow ledger r2) = dedupKeys ledger"
    unfolding storeRow_same[OF assms(1-3)] using assms(4,5)
    by (induction ledger) (auto simp: dedupKeys_def)
qed

lemma processAttempt_key:
  "rowId (fst (processAttempt h now r s)) = rowId r
   \<and> source (fst (processAttempt h now r s)) = source r
   \<and> externalEventId (fst (processAttempt h now r s)) = externalEventId r"
  by (auto simp: processAttempt_def Let_def split: prod.splits sum.splits)

lemma ledgerOk_storeRow:
  assumes "ledgerOk ledger" and "r \<in> set ledger"
    and "rowId r2 = rowId r" and "source r2 = source r" and "externalEventId r2 = externalEventId r"
  shows "ledgerOk (storeRow ledger r2)"
  using assms storeRow_keeps[of ledger r r2] by (simp add: ledgerOk_def)

lemma find_unique_key:
  assumes "distinct (dedupKeys ledger)" and "r \<in> set ledger"
    and "source r = src" and "externalEventId r = Some e"
  shows "find (\<lambda>x. source x = src \<and> externalEventId x = Some e) ledger = Some r"
  using assms
proof (induction ledger)
  case Nil
  then show ?case by simp
next
  case (Cons a ledger)
  show ?case
  proof (cases "source a = src \<and> externalEventId a = Some e")
    case True
    have "a = r"
    proof (rule ccontr)
      assume "a \<noteq> r"
      then have "r \<in> set ledger" using Cons.prems(2) by simp
      then have "(src, e) \<in> set (dedupKeys ledger)"
        using Cons.prems(3,4) by (force simp: dedupKeys_def)
      then show False using Cons.prems(1) True by (simp add: dedupKeys_def)
    qed
    then show ?thesis using True by simp
  next
    case False
    then have "r \<in> set ledger" using Cons.prems(2,3,4) by auto
    moreover have "distinct (dedupKeys ledger)"
      using Cons.prems(1) by (cases "externalEventId a") (simp_all add: dedupKeys_def)
    ultimately have "find (\<lambda>x. source x = src \<and> externalEventId x = Some e) ledger = Some r"
      using Cons.IH Cons.prems(3,4) by blast
    moreover have "find (\<lambda>x. source x = src \<and> externalEventId x = Some e) (a # ledger)
                 = find (\<lambda>x. source x = src \<and> externalEventId x = Some e) ledger"
      using False by auto
    ultimately show ?thesis by simp
  qed
qed

lemma count_distinct_one:
  "distinct xs \<Longrightarrow> k \<in> set xs \<Longrightarrow> length (filter (\<lambda>x. x = k) xs) = 1"
proof (induction xs)
  case Nil
  then show ?case by simp
next
  case (Cons a xs)
  show ?case
  proof (cases "a = k")
    case True
    then have "k \<notin> set xs" using Cons.prems(1) by simp
    then have "filter (\<lambda>x. x = k) xs = []" by (auto simp: filter_empty_conv)
    then show ?thesis using True by simp
  next
    case False
    then show ?thesis using Cons by simp
  qed
qed

lemma key_count_one:
  assumes "distinct (dedupKeys ledger)" and "r \<in> set ledger"
    and "source r = src" and "externalEventId r = Some e"
  shows "length (filter (\<lambda>x. source x = src \<and> externalEventId x = Some e) ledger) = 1"
proof -
  have eq: "map (\<lambda>x. (source x, the (externalEventId x)))
              (filter (\<lambda>x. source x = src \<and> externalEventId x = Some e) ledger)
            = filter (\<lambda>k. k = (src, e)) (dedupKeys ledger)"
    by (induction ledger) (auto simp: dedupKeys_def)
  have "(src, e) \<in> set (dedupKeys ledger)"
    using assms(2-4) by (force simp: dedupKeys_def)
  then have one: "length (filter (\<lambda>k. k = (src, e)) (dedupKeys ledger)) = 1"
    by (rule count_distinct_one[OF assms(1)])
  have "length (filter (\<lambda>x. source x = src \<and> externalEventId x = Some e) ledger)
      = length (map (\<lambda>x. (source x, the (externalEventId x)))
              (filter (\<lambda>x. source x = src \<and> externalEventId x = Some e) ledger))"
    by simp
  also have "\<dots> = length (filter (\<lambda>k. k = (src, e)) (dedupKeys ledger))"
    by (simp only: eq)
  finally show ?thesis using one by simp
qed

lemma storeRow_mem:
  assumes "distinct (map rowId ledger)" and "r \<in> set ledger" and "rowId r2 = rowId r"
  shows "r2 \<in> set (storeRow ledger r2)"
  unfolding storeRow_same[OF assms] using assms(2) by auto

lemma deliver_not_eligible:
  assumes "findEvent ledger src eid = Some r" and "\<not> eligible r"
  shows "deliver h now src eid ty pl (ledger, s) = (r, ledger, s)"
  using assms by (simp add: deliver_def ingest_def)

lemma deliver_ledger:
  assumes "ledgerOk ledger0"
    and "deliver h now src eid ty pl (ledger0, s0) = (r, ledger1, s1)"
  shows "ledgerOk ledger1 \<and> r \<in> set ledger1 \<and> source r = src \<and> externalEventId r = eid"
proof -
  obtain r0 l0 where ing: "ingest ledger0 src eid ty pl = (r0, l0)"
    by (cases "ingest ledger0 src eid ty pl")
  have ok0: "ledgerOk l0" using ledgerOk_ingest[OF assms(1), of src eid ty pl] ing by simp
  have mem0: "r0 \<in> set l0" using ingest_mem[of ledger0 src eid ty pl] ing by simp
  have key0: "source r0 = src" "externalEventId r0 = eid"
    using ingest_key[of ledger0 src eid ty pl] ing by simp_all
  show ?thesis
  proof (cases "eligible r0")
    case False
    then have "r = r0" "ledger1 = l0" using assms(2) ing by (simp_all add: deliver_def)
    then show ?thesis using ok0 mem0 key0 by simp
  next
    case True
    obtain r2 s2 where pa: "processAttempt h now r0 s0 = (r2, s2)"
      by (cases "processAttempt h now r0 s0")
    have k2: "rowId r2 = rowId r0" "source r2 = source r0" "externalEventId r2 = externalEventId r0"
      using processAttempt_key[of h now r0 s0] pa by simp_all
    have res: "r = r2" "ledger1 = storeRow l0 r2"
      using assms(2) ing True pa by (auto simp: deliver_def)
    have d0: "distinct (map rowId l0)" using ok0 by (simp add: ledgerOk_def)
    show ?thesis
      using res ledgerOk_storeRow[OF ok0 mem0 k2] storeRow_mem[OF d0 mem0 k2(1)] k2 key0
      by simp
  qed
qed

text \<open>C9. Starting from a ledger that satisfies the table's constraints, one delivery of
  a webhook with identifiers \<open>(source, externalEventId)\<close> leaves a ledger that
  satisfies them again and holds exactly one record for these identifiers, the one the
  delivery returns. When that record is processed or ignored, delivering the same
  identifiers again (whatever the handler, time, type and payload) returns the same
  record and leaves the ledger and the state the handler acts on unchanged: the handler
  does not run a second time.\<close>

theorem redelivery_idempotent:
  assumes "ledgerOk ledger0"
    and "deliver h now src (Some e) ty pl (ledger0, s0) = (r, ledger1, s1)"
  shows "ledgerOk ledger1
       \<and> length (filter (\<lambda>x. source x = src \<and> externalEventId x = Some e) ledger1) = 1
       \<and> findEvent ledger1 src (Some e) = Some r
       \<and> (status r = Processed \<or> status r = Ignored \<longrightarrow>
            deliver h2 now2 src (Some e) ty2 pl2 (ledger1, s1) = (r, ledger1, s1))"
proof -
  have l: "ledgerOk ledger1" "r \<in> set ledger1" "source r = src" "externalEventId r = Some e"
    using deliver_ledger[OF assms] by simp_all
  have d: "distinct (dedupKeys ledger1)" using l(1) by (simp add: ledgerOk_def)
  have one: "length (filter (\<lambda>x. source x = src \<and> externalEventId x = Some e) ledger1) = 1"
    by (rule key_count_one[OF d l(2) l(3) l(4)])
  have f: "findEvent ledger1 src (Some e) = Some r"
    using find_unique_key[OF d l(2) l(3) l(4)] by (simp add: findEvent_def)
  have "deliver h2 now2 src (Some e) ty2 pl2 (ledger1, s1) = (r, ledger1, s1)"
    if "status r = Processed \<or> status r = Ignored"
  proof -
    have "\<not> eligible r" using that by (auto simp: eligible_def)
    then show ?thesis using f by (rule deliver_not_eligible[rotated])
  qed
  then show ?thesis using l(1) one f by blast
qed

text \<open>A handler that counts its runs: after two deliveries of \<open>evt_1\<close> it has run
  once.\<close>

theorem redelivery_idempotent_witness:
  "ledgerOk []
   \<and> deliver (\<lambda>n::nat. (Inr ''done'', Suc n)) 100 ''asaas'' (Some ''evt_1'') ''PAYMENT_CONFIRMED'' ''{}'' ([], 0)
       = ((newEvent 1 ''asaas'' (Some ''evt_1'') ''PAYMENT_CONFIRMED'' ''{}'')
            \<lparr>attempts := 1, status := Processed, rowResult := Some ''done'', processedAt := Some 100\<rparr>,
          [(newEvent 1 ''asaas'' (Some ''evt_1'') ''PAYMENT_CONFIRMED'' ''{}'')
            \<lparr>attempts := 1, status := Processed, rowResult := Some ''done'', processedAt := Some 100\<rparr>],
          1)
   \<and> deliver (\<lambda>n::nat. (Inr ''done'', Suc n)) 200 ''asaas'' (Some ''evt_1'') ''PAYMENT_CONFIRMED'' ''{}''
        ([(newEvent 1 ''asaas'' (Some ''evt_1'') ''PAYMENT_CONFIRMED'' ''{}'')
            \<lparr>attempts := 1, status := Processed, rowResult := Some ''done'', processedAt := Some 100\<rparr>], 1)
       = ((newEvent 1 ''asaas'' (Some ''evt_1'') ''PAYMENT_CONFIRMED'' ''{}'')
            \<lparr>attempts := 1, status := Processed, rowResult := Some ''done'', processedAt := Some 100\<rparr>,
          [(newEvent 1 ''asaas'' (Some ''evt_1'') ''PAYMENT_CONFIRMED'' ''{}'')
            \<lparr>attempts := 1, status := Processed, rowResult := Some ''done'', processedAt := Some 100\<rparr>],
          1)"
proof -
  let ?h = "\<lambda>n::nat. (Inr ''done'' :: string + string, Suc n)"
  let ?r = "(newEvent 1 ''asaas'' (Some ''evt_1'') ''PAYMENT_CONFIRMED'' ''{}'')
            \<lparr>attempts := 1, status := Processed, rowResult := Some ''done'', processedAt := Some 100\<rparr>"
  have ok: "ledgerOk []" by (simp add: ledgerOk_def dedupKeys_def)
  have first: "deliver ?h 100 ''asaas'' (Some ''evt_1'') ''PAYMENT_CONFIRMED'' ''{}'' ([], 0) = (?r, [?r], 1)"
    by (simp add: deliver_def ingest_def findEvent_def freshId_def newEvent_def eligible_def
          processAttempt_def Let_def storeRow_def)
  have p: "status ?r = Processed \<or> status ?r = Ignored" by simp
  note w = redelivery_idempotent [OF ok first, THEN conjunct2, THEN conjunct2, THEN conjunct2,
      rule_format, OF p, of ?h 200 "''PAYMENT_CONFIRMED''" "''{}''"]
  show ?thesis using ok first w by simp
qed


section \<open>Active tenants are never suspended directly\<close>

text \<open>C10. For a tenant whose stored status is active, a \<^verbatim>\<open>PAYMENT_OVERDUE\<close> event whose
  computed \<open>daysOverdue\<close> reaches the suspension threshold does not suspend the tenant:
  the target suspended is not a successor of active, so
  \<^verbatim>\<open>InvalidBillingTransitionError(active, suspended)\<close> is raised with the store
  untouched, the event result has \<open>success = false\<close> and carries the error's message,
  and the stored status is still active. More generally no call of \<^verbatim>\<open>handleEvent\<close>,
  whatever the event, takes a stored status from active to suspended.\<close>

theorem active_overdue_not_suspended:
  assumes "validateAccessToken cfg tok"
    and "event ev = ''PAYMENT_OVERDUE''"
    and "payment ev = Some p"
    and "resolvePaymentTenant cfg st p = Some t"
    and "getTenantBilling st (tenant_id t) = Some tb"
    and "billingStatus tb = ACTIVE"
    and "computeDaysOverdue now (dueDate p) \<ge> (case daysUntilSuspension (billingService cfg) of None \<Rightarrow> 15 | Some d \<Rightarrow> d)"
  shows "handleEventTry cfg st ev tok now = (Inl (InvalidBillingTransitionError ACTIVE SUSPENDED), st)
       \<and> handleEvent cfg st ev tok now =
            (\<lparr>success = False, eventType = ''PAYMENT_OVERDUE'', resTenantId = None, action = None,
              error = Some (errorMessage (InvalidBillingTransitionError ACTIVE SUSPENDED))\<rparr>, st)
       \<and> storedStatus (snd (handleEvent cfg st ev tok now)) (tenant_id t) = Some ACTIVE
       \<and> (\<forall>ev2 tok2 now2 k. storedStatus st k = Some ACTIVE \<longrightarrow>
             storedStatus (snd (handleEvent cfg st ev2 tok2 now2)) k \<noteq> Some SUSPENDED)"
proof -
  have tgt: "overdueTarget (billingService cfg) (computeDaysOverdue now (dueDate p)) = SUSPENDED"
    using assms(7) by (simp add: overdueTarget_def suspensionThreshold_def)
  have nv: "\<not> isValidTransition ACTIVE SUSPENDED" by (simp add: isValidTransition_def)
  have tr: "handleEventTry cfg st ev tok now = (Inl (InvalidBillingTransitionError ACTIVE SUSPENDED), st)"
    using handleEvent_overdue_eq[OF assms(1-5), of now] tgt nv assms(6) by simp
  have st: "storedStatus st (tenant_id t) = Some ACTIVE"
    using assms(5,6) by (simp add: storedStatus_def getTenantBilling_def)
  have gen: "\<forall>ev2 tok2 now2 k. storedStatus st k = Some ACTIVE \<longrightarrow>
             storedStatus (snd (handleEvent cfg st ev2 tok2 now2)) k \<noteq> Some SUSPENDED"
    using no_active_to_suspended by blast
  have main: "handleEvent cfg st ev tok now =
            (\<lparr>success = False, eventType = ''PAYMENT_OVERDUE'', resTenantId = None, action = None,
              error = Some (errorMessage (InvalidBillingTransitionError ACTIVE SUSPENDED))\<rparr>, st)"
    using tr assms(2) by (simp add: handleEvent_def)
  show ?thesis using tr main st gen by simp
qed

text \<open>The active tenant \<open>t1\<close> with an event sixteen days past due and the default
  threshold.\<close>

theorem active_overdue_not_suspended_witness:
  "validateAccessToken (exConfig (exRemote ''ACTIVE'' False)) (Some ''secret'')
   \<and> resolvePaymentTenant (exConfig (exRemote ''ACTIVE'' False)) (exStore ACTIVE) (exPayment 0) = Some (exTenant ACTIVE)
   \<and> getTenantBilling (exStore ACTIVE) ''t1'' = Some (exTenant ACTIVE)
   \<and> computeDaysOverdue 1382405000 (dueDate (exPayment 0)) \<ge> 15
   \<and> handleEvent (exConfig (exRemote ''ACTIVE'' False)) (exStore ACTIVE)
        (exEvent ''PAYMENT_OVERDUE'' 0) (Some ''secret'') 1382405000 =
        (\<lparr>success = False, eventType = ''PAYMENT_OVERDUE'', resTenantId = None, action = None,
          error = Some (errorMessage (InvalidBillingTransitionError ACTIVE SUSPENDED))\<rparr>, exStore ACTIVE)
   \<and> storedStatus (snd (handleEvent (exConfig (exRemote ''ACTIVE'' False)) (exStore ACTIVE)
        (exEvent ''PAYMENT_OVERDUE'' 0) (Some ''secret'') 1382405000)) ''t1'' = Some ACTIVE"
proof -
  have h7: "computeDaysOverdue 1382405000 (dueDate (exPayment 0))
              \<ge> (case daysUntilSuspension (billingService (exConfig (exRemote ''ACTIVE'' False))) of None \<Rightarrow> 15 | Some d \<Rightarrow> d)"
    by (simp add: ex_days ex_fixture_facts)
  note r = active_overdue_not_suspended [OF ex_fixture_facts(1) ex_fixture_facts(2) ex_fixture_facts(3)
      ex_fixture_facts(4) ex_fixture_facts(5) ex_fixture_facts(7) h7]
  have s: "storedStatus (exStore ACTIVE) ''t1'' = Some ACTIVE"
    by (simp add: storedStatus_def exStore_def exTenant_def)
  have m: "handleEvent (exConfig (exRemote ''ACTIVE'' False)) (exStore ACTIVE)
        (exEvent ''PAYMENT_OVERDUE'' 0) (Some ''secret'') 1382405000 =
        (\<lparr>success = False, eventType = ''PAYMENT_OVERDUE'', resTenantId = None, action = None,
          error = Some (errorMessage (InvalidBillingTransitionError ACTIVE SUSPENDED))\<rparr>, exStore ACTIVE)"
    using r by blast
  show ?thesis
    using m s ex_fixture_facts(1,4,5) by (simp add: ex_days ex_fixture_facts(6))
qed

end
